theory Spec2Isabelle
  imports Main
begin

unbundle bit_operations_syntax

section \<open>JavaScript strings and arrays\<close>

text \<open>
  A JavaScript string is modelled by the byte sequence of its UTF-8 encoding, an Isabelle
  \<open>string\<close>. Concatenation, equality, emptiness and splitting at the line feed agree with
  the JavaScript operations under that encoding, since the byte 0x0A occurs in UTF-8 only
  as the line feed itself.
\<close>

definition LF :: char where
  "LF = CHR 0x0A"

text \<open>\<^verbatim>\<open>s.split('\n')\<close>: the pieces between line feeds; the empty string gives one empty piece.\<close>

fun js_split :: "string \<Rightarrow> string list" where
  "js_split [] = [[]]"
| "js_split (c # cs) =
     (if c = LF then [] # js_split cs
      else (case js_split cs of [] \<Rightarrow> [[c]] | p # ps \<Rightarrow> (c # p) # ps))"

text \<open>\<^verbatim>\<open>xs.join('\n')\<close>.\<close>

fun js_join :: "string list \<Rightarrow> string" where
  "js_join [] = []"
| "js_join [x] = x"
| "js_join (x # y # ys) = x @ LF # js_join (y # ys)"

text \<open>\<^verbatim>\<open>xs.filter(Boolean)\<close> on an array of strings: only the empty string is falsy.\<close>

definition filter_Boolean :: "string list \<Rightarrow> string list" where
  "filter_Boolean xs = filter (\<lambda>s. s \<noteq> []) xs"

text \<open>\<^verbatim>\<open>s.replace('\n', ', ')\<close>: a string pattern replaces the first occurrence only.\<close>

fun replace_LF :: "string \<Rightarrow> string" where
  "replace_LF [] = []"
| "replace_LF (c # cs) = (if c = LF then '', '' @ cs else c # replace_LF cs)"

text \<open>\<^verbatim>\<open>b.toString()\<close> and the interpolation of a boolean in a template literal.\<close>

definition bool_toString :: "bool \<Rightarrow> string" where
  "bool_toString b = (if b then ''true'' else ''false'')"

text \<open>\<^verbatim>\<open>a || b\<close> on strings: the empty string is falsy.\<close>

definition or_else :: "string \<Rightarrow> string \<Rightarrow> string" where
  "or_else a b = (if a = [] then b else a)"

section \<open>Effects: the trace of calls to the collaborators, and exceptions\<close>

datatype js_error = Error (message: string)

text \<open>
  Every call of the program into \<^verbatim>\<open>@actions/core\<close>, \<^verbatim>\<open>@actions/exec\<close>,
  \<^verbatim>\<open>@actions/cache\<close> and the file system is recorded, in program order.
\<close>

datatype event =
    Info string
  | Warning string
  | SetFailed string
  | SetOutput string string
  | SaveState string string
  | AddPath string
  | ExportVariable string string
  | GetInput string
  | GetState string
  | ExistsSync string
  | ReadFile string
  | MkDir string
  | Unlink string
  | Exec string "string list"
  | RestoreCache "string list" string "string list"
  | SaveCache "string list" string

text \<open>
  A computation yields the events it performed and either the exception it threw
  (\<open>Inl\<close>) or its value.
\<close>

type_synonym 'a comp = "event list \<times> (js_error + 'a)"

definition ret :: "'a \<Rightarrow> 'a comp" where
  "ret x = ([], Inr x)"

definition throw :: "js_error \<Rightarrow> 'a comp" where
  "throw e = ([], Inl e)"

definition emit :: "event \<Rightarrow> unit comp" where
  "emit ev = ([ev], Inr ())"

definition bind :: "'a comp \<Rightarrow> ('a \<Rightarrow> 'b comp) \<Rightarrow> 'b comp" where
  "bind m f =
     (case m of
        (t, Inl e) \<Rightarrow> (t, Inl e)
      | (t, Inr x) \<Rightarrow> (case f x of (t', r) \<Rightarrow> (t @ t', r)))"

text \<open>\<^verbatim>\<open>try { m } catch (error) { h error }\<close>.\<close>

definition try_catch :: "'a comp \<Rightarrow> (js_error \<Rightarrow> 'a comp) \<Rightarrow> 'a comp" where
  "try_catch m h =
     (case m of
        (t, Inl e) \<Rightarrow> (case h e of (t', r) \<Rightarrow> (t @ t', r))
      | (t, Inr x) \<Rightarrow> (t, Inr x))"

text \<open>What a trace did to the artifact store, to the job state and to the job outputs.\<close>

fun saveCache_calls :: "event list \<Rightarrow> (string list \<times> string) list" where
  "saveCache_calls [] = []"
| "saveCache_calls (SaveCache ps k # t) = (ps, k) # saveCache_calls t"
| "saveCache_calls (_ # t) = saveCache_calls t"

fun warnings :: "event list \<Rightarrow> string list" where
  "warnings [] = []"
| "warnings (Warning w # t) = w # warnings t"
| "warnings (_ # t) = warnings t"

fun state_reads :: "event list \<Rightarrow> string list" where
  "state_reads [] = []"
| "state_reads (GetState n # t) = n # state_reads t"
| "state_reads (_ # t) = state_reads t"

fun input_reads :: "event list \<Rightarrow> string list" where
  "input_reads [] = []"
| "input_reads (GetInput n # t) = n # input_reads t"
| "input_reads (_ # t) = input_reads t"

fun file_reads :: "event list \<Rightarrow> string list" where
  "file_reads [] = []"
| "file_reads (ReadFile p # t) = p # file_reads t"
| "file_reads (_ # t) = file_reads t"

fun restoreCache_calls :: "event list \<Rightarrow> (string list \<times> string \<times> string list) list" where
  "restoreCache_calls [] = []"
| "restoreCache_calls (RestoreCache ps k ks # t) = (ps, k, ks) # restoreCache_calls t"
| "restoreCache_calls (_ # t) = restoreCache_calls t"

fun state_writes :: "event list \<Rightarrow> (string \<times> string) list" where
  "state_writes [] = []"
| "state_writes (SaveState n v # t) = (n, v) # state_writes t"
| "state_writes (_ # t) = state_writes t"

fun outputs :: "event list \<Rightarrow> (string \<times> string) list" where
  "outputs [] = []"
| "outputs (SetOutput n v # t) = (n, v) # outputs t"
| "outputs (_ # t) = outputs t"

fun failures :: "event list \<Rightarrow> string list" where
  "failures [] = []"
| "failures (SetFailed m # t) = m # failures t"
| "failures (_ # t) = failures t"

section \<open>Node library functions: UTF-8 and SHA-256\<close>

text \<open>
  \<^verbatim>\<open>fs.readFileSync(path, 'utf8')\<close> decodes the bytes of the file as UTF-8, each
  ill-formed subsequence becoming U+FFFD. The decoder is the one of the Encoding standard,
  without the removal of a byte order mark: a byte either continues the pending sequence
  or, out of its bounds, ends it with U+FFFD and is read again as a lead byte.
\<close>

record utf8_state =
  code_point :: nat
  bytes_seen :: nat
  bytes_needed :: nat
  lower_boundary :: nat
  upper_boundary :: nat

definition utf8_initial :: utf8_state where
  "utf8_initial =
     \<lparr>code_point = 0, bytes_seen = 0, bytes_needed = 0,
      lower_boundary = 0x80, upper_boundary = 0xBF\<rparr>"

definition utf8_lead :: "nat \<Rightarrow> utf8_state \<times> nat list" where
  "utf8_lead b =
     (if b \<le> 0x7F then (utf8_initial, [b])
      else if 0xC2 \<le> b \<and> b \<le> 0xDF
      then (utf8_initial\<lparr>bytes_needed := 1, code_point := b mod 32\<rparr>, [])
      else if 0xE0 \<le> b \<and> b \<le> 0xEF
      then (utf8_initial\<lparr>lower_boundary := (if b = 0xE0 then 0xA0 else 0x80),
                           upper_boundary := (if b = 0xED then 0x9F else 0xBF),
                           bytes_needed := 2, code_point := b mod 16\<rparr>, [])
      else if 0xF0 \<le> b \<and> b \<le> 0xF4
      then (utf8_initial\<lparr>lower_boundary := (if b = 0xF0 then 0x90 else 0x80),
                           upper_boundary := (if b = 0xF4 then 0x8F else 0xBF),
                           bytes_needed := 3, code_point := b mod 8\<rparr>, [])
      else (utf8_initial, [0xFFFD]))"

definition utf8_step :: "utf8_state \<Rightarrow> nat \<Rightarrow> utf8_state \<times> nat list" where
  "utf8_step st b =
     (if bytes_needed st = 0 then utf8_lead b
      else if b < lower_boundary st \<or> upper_boundary st < b
      then (fst (utf8_lead b), 0xFFFD # snd (utf8_lead b))
      else if bytes_seen st + 1 \<noteq> bytes_needed st
      then (st\<lparr>lower_boundary := 0x80, upper_boundary := 0xBF,
               code_point := code_point st * 64 + b mod 64,
               bytes_seen := bytes_seen st + 1\<rparr>, [])
      else (utf8_initial, [code_point st * 64 + b mod 64]))"

fun utf8_run :: "utf8_state \<Rightarrow> nat list \<Rightarrow> nat list" where
  "utf8_run st [] = (if bytes_needed st \<noteq> 0 then [0xFFFD] else [])"
| "utf8_run st (b # bs) = snd (utf8_step st b) @ utf8_run (fst (utf8_step st b)) bs"

text \<open>The code points of the string that the bytes decode to.\<close>

definition utf8_decode :: "string \<Rightarrow> nat list" where
  "utf8_decode bs = utf8_run utf8_initial (map of_char bs)"

text \<open>The UTF-8 encoding of a code point; a surrogate is encoded as U+FFFD.\<close>

definition utf8_encode_cp :: "nat \<Rightarrow> string" where
  "utf8_encode_cp cp =
     (if cp < 0x80 then [char_of cp]
      else if cp < 0x800 then [char_of (0xC0 + cp div 64), char_of (0x80 + cp mod 64)]
      else if 0xD800 \<le> cp \<and> cp \<le> 0xDFFF then [CHR 0xEF, CHR 0xBF, CHR 0xBD]
      else if cp < 0x10000
      then [char_of (0xE0 + cp div 4096), char_of (0x80 + cp div 64 mod 64),
            char_of (0x80 + cp mod 64)]
      else [char_of (0xF0 + cp div 262144), char_of (0x80 + cp div 4096 mod 64),
            char_of (0x80 + cp div 64 mod 64), char_of (0x80 + cp mod 64)])"

definition utf8_encode :: "nat list \<Rightarrow> string" where
  "utf8_encode cps = concat (map utf8_encode_cp cps)"

text \<open>
  The well-formed UTF-8 byte sequences, after Table 3-7 of the Unicode standard: one byte
  up to 0x7F, or a lead byte 0xC2 to 0xF4 followed by one to three continuation bytes, the
  first of them bounded so as to exclude overlong forms, surrogates and code points beyond
  U+10FFFF.
\<close>

fun wf_bytes :: "nat list \<Rightarrow> bool" where
  "wf_bytes [] = True"
| "wf_bytes (b0 # bs) =
     (if b0 \<le> 0x7F then wf_bytes bs
      else if 0xC2 \<le> b0 \<and> b0 \<le> 0xDF
      then (case bs of
              b1 # r \<Rightarrow> 0x80 \<le> b1 \<and> b1 \<le> 0xBF \<and> wf_bytes r
            | _ \<Rightarrow> False)
      else if 0xE0 \<le> b0 \<and> b0 \<le> 0xEF
      then (case bs of
              b1 # b2 # r \<Rightarrow>
                (if b0 = 0xE0 then 0xA0 else 0x80) \<le> b1 \<and>
                b1 \<le> (if b0 = 0xED then 0x9F else 0xBF) \<and>
                0x80 \<le> b2 \<and> b2 \<le> 0xBF \<and> wf_bytes r
            | _ \<Rightarrow> False)
      else if 0xF0 \<le> b0 \<and> b0 \<le> 0xF4
      then (case bs of
              b1 # b2 # b3 # r \<Rightarrow>
                (if b0 = 0xF0 then 0x90 else 0x80) \<le> b1 \<and>
                b1 \<le> (if b0 = 0xF4 then 0x8F else 0xBF) \<and>
                0x80 \<le> b2 \<and> b2 \<le> 0xBF \<and> 0x80 \<le> b3 \<and> b3 \<le> 0xBF \<and> wf_bytes r
            | _ \<Rightarrow> False)
      else False)"

definition well_formed_utf8 :: "string \<Rightarrow> bool" where
  "well_formed_utf8 bs = wf_bytes (map of_char bs)"

text \<open>
  \<^verbatim>\<open>crypto.createHash('sha256')\<close>: SHA-256 as in FIPS 180-4, on 32-bit words kept as
  natural numbers below \<open>2 ^ 32\<close>, the wrap-around of the addition written out. The round
  constants and the initial hash value are written in decimal.
\<close>

type_synonym word32 = nat

definition add32 :: "word32 \<Rightarrow> word32 \<Rightarrow> word32" where
  "add32 x y = (x + y) mod 4294967296"

definition rotr :: "nat \<Rightarrow> word32 \<Rightarrow> word32" where
  "rotr n x = x div 2 ^ n + (x mod 2 ^ n) * 2 ^ (32 - n)"

definition sha_ch :: "word32 \<Rightarrow> word32 \<Rightarrow> word32 \<Rightarrow> word32" where
  "sha_ch e f g = (e AND f) XOR ((e XOR 4294967295) AND g)"

definition sha_maj :: "word32 \<Rightarrow> word32 \<Rightarrow> word32 \<Rightarrow> word32" where
  "sha_maj a b c = (a AND b) XOR (a AND c) XOR (b AND c)"

definition big_sigma0 :: "word32 \<Rightarrow> word32" where
  "big_sigma0 a = rotr 2 a XOR rotr 13 a XOR rotr 22 a"

definition big_sigma1 :: "word32 \<Rightarrow> word32" where
  "big_sigma1 e = rotr 6 e XOR rotr 11 e XOR rotr 25 e"

definition small_sigma0 :: "word32 \<Rightarrow> word32" where
  "small_sigma0 w = rotr 7 w XOR rotr 18 w XOR w div 2 ^ 3"

definition small_sigma1 :: "word32 \<Rightarrow> word32" where
  "small_sigma1 w = rotr 17 w XOR rotr 19 w XOR w div 2 ^ 10"

definition K256 :: "word32 list" where
  "K256 =
     [1116352408, 1899447441, 3049323471, 3921009573, 961987163, 1508970993,
      2453635748, 2870763221, 3624381080, 310598401, 607225278, 1426881987,
      1925078388, 2162078206, 2614888103, 3248222580, 3835390401, 4022224774,
      264347078, 604807628, 770255983, 1249150122, 1555081692, 1996064986,
      2554220882, 2821834349, 2952996808, 3210313671, 3336571891, 3584528711,
      113926993, 338241895, 666307205, 773529912, 1294757372, 1396182291,
      1695183700, 1986661051, 2177026350, 2456956037, 2730485921, 2820302411,
      3259730800, 3345764771, 3516065817, 3600352804, 4094571909, 275423344,
      430227734, 506948616, 659060556, 883997877, 958139571, 1322822218,
      1537002063, 1747873779, 1955562222, 2024104815, 2227730452, 2361852424,
      2428436474, 2756734187, 3204031479, 3329325298]"

definition H256 :: "word32 list" where
  "H256 =
     [1779033703, 3144134277, 1013904242, 2773480762,
      1359893119, 2600822924, 528734635, 1541459225]"

text \<open>
  The message schedule is kept as a queue of sixteen words, the word of the current round
  first; each round drops it and appends the word sixteen rounds ahead.
\<close>

fun next_w :: "word32 list \<Rightarrow> word32" where
  "next_w (w0 # w1 # w2 # w3 # w4 # w5 # w6 # w7 # w8 # w9 # w10 # w11 # w12 # w13 # w14 # _) =
     add32 (add32 (add32 (small_sigma1 w14) w9) (small_sigma0 w1)) w0"
| "next_w _ = 0"

definition T1 :: "word32 \<Rightarrow> word32 \<Rightarrow> word32 \<Rightarrow> word32 \<Rightarrow> word32 \<Rightarrow> word32 \<Rightarrow> word32" where
  "T1 e f g h k w = add32 (add32 (add32 (add32 h (big_sigma1 e)) (sha_ch e f g)) k) w"

definition T2 :: "word32 \<Rightarrow> word32 \<Rightarrow> word32 \<Rightarrow> word32" where
  "T2 a b c = add32 (big_sigma0 a) (sha_maj a b c)"

text \<open>The working variables \<open>a\<close> to \<open>h\<close> are the list \<open>v\<close>.\<close>

definition shift_vars :: "word32 \<Rightarrow> word32 \<Rightarrow> word32 list \<Rightarrow> word32 list" where
  "shift_vars t1 t2 v =
     [add32 t1 t2, v ! 0, v ! 1, v ! 2, add32 (v ! 3) t1, v ! 4, v ! 5, v ! 6]"

fun round_step :: "word32 list \<times> word32 list \<Rightarrow> word32 \<Rightarrow> word32 list \<times> word32 list" where
  "round_step (v, q) k =
     (shift_vars (T1 (v ! 4) (v ! 5) (v ! 6) (v ! 7) k (hd q)) (T2 (v ! 0) (v ! 1) (v ! 2)) v,
      tl q @ [next_w q])"

definition compress :: "word32 list \<Rightarrow> word32 list \<Rightarrow> word32 list" where
  "compress hs blk = map2 add32 hs (fst (foldl round_step (hs, blk) K256))"

text \<open>Padding: 0x80, zeros up to 56 modulo 64, the length in bits on eight bytes.\<close>

definition pad :: "nat list \<Rightarrow> nat list" where
  "pad m =
     m @ [0x80] @ replicate ((119 - length m mod 64) mod 64) 0 @
     map (\<lambda>i. (8 * length m) div 256 ^ i mod 256) [7, 6, 5, 4, 3, 2, 1, 0]"

fun be_words :: "nat list \<Rightarrow> nat list" where
  "be_words (a # b # c # d # bs) = (((a * 256 + b) * 256 + c) * 256 + d) # be_words bs"
| "be_words _ = []"

fun blocks :: "nat list \<Rightarrow> nat list list" where
  "blocks (w0 # w1 # w2 # w3 # w4 # w5 # w6 # w7 # w8 # w9 # w10 # w11 # w12 # w13 # w14 # w15 # ws) =
     [w0, w1, w2, w3, w4, w5, w6, w7, w8, w9, w10, w11, w12, w13, w14, w15] # blocks ws"
| "blocks _ = []"

definition sha256 :: "string \<Rightarrow> nat list" where
  "sha256 m =
     foldl compress H256 (blocks (be_words (pad (map of_char m))))"

text \<open>\<^verbatim>\<open>digest('hex')\<close>: eight lowercase hexadecimal digits for each word.\<close>

definition hex_digit :: "nat \<Rightarrow> char" where
  "hex_digit d = ''0123456789abcdef'' ! (d mod 16)"

definition hex32 :: "nat \<Rightarrow> string" where
  "hex32 w = map (\<lambda>i. hex_digit (w div 16 ^ i)) [7, 6, 5, 4, 3, 2, 1, 0]"

definition sha256_hex :: "string \<Rightarrow> string" where
  "sha256_hex m = concat (map hex32 (sha256 m))"

section \<open>The restore phase: \<^verbatim>\<open>src/main.js\<close>\<close>

text \<open>
  The environment of the restore phase. The inputs are the values \<^verbatim>\<open>core.getInput\<close>
  returns (the empty string for an input that is not supplied); the files are their raw
  bytes, or the error the read throws. The calls into the file system, into
  \<^verbatim>\<open>@actions/exec\<close> and into the artifact store are given by their outcomes; the
  functions of \<^verbatim>\<open>path\<close> and the two regular-expression matches of the toolchain
  set-up (\<^verbatim>\<open>/^go\\s+([0-9.]+)/m\<close> on the version file, \<^verbatim>\<open>/go([0-9.]+)/\<close> on the
  output of \<^verbatim>\<open>go version\<close>, each giving its first group) are left open. The
  environment is the same throughout a run: the program itself changes no file it reads
  and no variable it looks up.
\<close>

record main_env =
  inputs :: "string \<Rightarrow> string"
  context_job :: string
  process_env :: "string \<Rightarrow> string option"
  process_platform :: string
  process_arch :: string
  fs_exists :: "string \<Rightarrow> bool"
  fs_read :: "string \<Rightarrow> js_error + string"
  fs_mkdir :: "string \<Rightarrow> js_error option"
  fs_unlink :: "string \<Rightarrow> js_error option"
  exec_outcome :: "string \<Rightarrow> string list \<Rightarrow> js_error option"
  exec_stdout :: "string \<Rightarrow> string list \<Rightarrow> js_error + string"
  path_join :: "string list \<Rightarrow> string"
  path_resolve :: "string list \<Rightarrow> string"
  path_dirname :: "string \<Rightarrow> string"
  match_go_directive :: "string \<Rightarrow> string option"
  match_go_version :: "string \<Rightarrow> string option"
  restoreCache :: "string list \<Rightarrow> string \<Rightarrow> string list \<Rightarrow> js_error + string option"

definition getInput :: "main_env \<Rightarrow> string \<Rightarrow> string comp" where
  "getInput env name = ([GetInput name], Inr (inputs env name))"

text \<open>\<^verbatim>\<open>core.getInput(name, { required: true })\<close> throws when the value is empty.
  The value supplied and the trimmed value returned are taken to be empty together.\<close>

definition getInput_required :: "main_env \<Rightarrow> string \<Rightarrow> string comp" where
  "getInput_required env name =
     ([GetInput name],
      if inputs env name = [] then Inl (Error (''Input required and not supplied: '' @ name))
      else Inr (inputs env name))"

definition existsSync :: "main_env \<Rightarrow> string \<Rightarrow> bool comp" where
  "existsSync env p = ([ExistsSync p], Inr (fs_exists env p))"

text \<open>
  \<^verbatim>\<open>fs.readFileSync(p, 'utf8')\<close>: the string the bytes decode to, in the representation
  of strings used here, its UTF-8 encoding.
\<close>

definition readFileSync :: "main_env \<Rightarrow> string \<Rightarrow> string comp" where
  "readFileSync env p =
     ([ReadFile p],
      (case fs_read env p of Inl e \<Rightarrow> Inl e | Inr bs \<Rightarrow> Inr (utf8_encode (utf8_decode bs))))"

definition mkdirSync :: "main_env \<Rightarrow> string \<Rightarrow> unit comp" where
  "mkdirSync env p = ([MkDir p], (case fs_mkdir env p of None \<Rightarrow> Inr () | Some e \<Rightarrow> Inl e))"

definition unlinkSync :: "main_env \<Rightarrow> string \<Rightarrow> unit comp" where
  "unlinkSync env p = ([Unlink p], (case fs_unlink env p of None \<Rightarrow> Inr () | Some e \<Rightarrow> Inl e))"

definition exec :: "main_env \<Rightarrow> string \<Rightarrow> string list \<Rightarrow> unit comp" where
  "exec env cmd args =
     ([Exec cmd args], (case exec_outcome env cmd args of None \<Rightarrow> Inr () | Some e \<Rightarrow> Inl e))"

definition getExecOutput :: "main_env \<Rightarrow> string \<Rightarrow> string list \<Rightarrow> string comp" where
  "getExecOutput env cmd args = ([Exec cmd args], exec_stdout env cmd args)"

definition restoreCache_call ::
  "main_env \<Rightarrow> string list \<Rightarrow> string \<Rightarrow> string list \<Rightarrow> string option comp" where
  "restoreCache_call env paths key keys =
     ([RestoreCache paths key keys], restoreCache env paths key keys)"

text \<open>\<^verbatim>\<open>process.env.NAME || fallback\<close>: an unset or empty variable gives the fallback.\<close>

definition env_or :: "string option \<Rightarrow> string \<Rightarrow> string" where
  "env_or v fallback = (case v of None \<Rightarrow> fallback | Some s \<Rightarrow> or_else s fallback)"

text \<open>\<^verbatim>\<open>process.env.HOME || process.env.USERPROFILE\<close>, \<open>None\<close> when it is undefined.\<close>

definition home_dir :: "main_env \<Rightarrow> string option" where
  "home_dir env =
     (case process_env env ''HOME'' of
        None \<Rightarrow> process_env env ''USERPROFILE''
      | Some s \<Rightarrow> if s = [] then process_env env ''USERPROFILE'' else Some s)"

text \<open>\<^verbatim>\<open>path.join\<close> throws a TypeError on an argument that is not a string.\<close>

fun defined_args :: "string option list \<Rightarrow> string list option" where
  "defined_args [] = Some []"
| "defined_args (None # as) = None"
| "defined_args (Some a # as) =
     (case defined_args as of None \<Rightarrow> None | Some xs \<Rightarrow> Some (a # xs))"

definition path_join_args :: "main_env \<Rightarrow> string option list \<Rightarrow> string comp" where
  "path_join_args env as =
     (case defined_args as of
        None \<Rightarrow> throw (Error (''The '' @ [CHR 0x22] @ ''path'' @ [CHR 0x22] @
                   '' argument must be of type string. Received undefined''))
      | Some xs \<Rightarrow> ret (path_join env xs))"

text \<open>\<^verbatim>\<open>getFileHash\<close>, lines 9 to 17. The hash is updated with the string read, that is
  with its UTF-8 encoding.\<close>

definition getFileHash :: "main_env \<Rightarrow> string \<Rightarrow> string comp" where
  "getFileHash env filePath =
     try_catch
       (bind (readFileSync env filePath) (\<lambda>content.
        ret (take 8 (sha256_hex content))))
       (\<lambda>error.
        bind (emit (Warning (''Could not read '' @ filePath @ '': '' @ message error))) (\<lambda>_.
        ret ''missing''))"

text \<open>\<^verbatim>\<open>buildRestoreKeys\<close>, lines 19 to 26.\<close>

definition buildRestoreKeys :: "string \<Rightarrow> string \<Rightarrow> string \<Rightarrow> string \<Rightarrow> string" where
  "buildRestoreKeys runneros goVersion jobName goSumHash =
     js_join
       [''golang-'' @ runneros @ ''-'' @ goVersion @ ''-'' @ jobName @ ''-'' @ goSumHash,
        ''golang-'' @ runneros @ ''-'' @ goVersion @ ''-'' @ jobName,
        ''golang-'' @ runneros @ ''-'' @ goVersion,
        ''golang-'' @ runneros]"

text \<open>The template of line 122, the primary key.\<close>

definition make_cacheKey :: "string \<Rightarrow> string \<Rightarrow> string \<Rightarrow> string \<Rightarrow> string" where
  "make_cacheKey runner installedVersion jobName goSumHash =
     ''golang-'' @ runner @ ''-'' @ installedVersion @ ''-'' @ jobName @ ''-'' @ goSumHash"

text \<open>Lines 30 to 46: the inputs. The value is
  \<open>(goVersionFile, workingDirectory, jobName)\<close>.\<close>

definition read_inputs :: "main_env \<Rightarrow> (string \<times> string \<times> string) comp" where
  "read_inputs env =
     bind (getInput_required env ''go-version-file'') (\<lambda>goVersionFile.
     bind (if goVersionFile = [] then throw (Error ''go-version-file input is required'')
           else ret ()) (\<lambda>_.
     bind (getInput env ''working-directory'') (\<lambda>wd.
     let workingDirectory = or_else wd ''.'' in
     bind (getInput env ''job-name'') (\<lambda>jn.
     let jobName = or_else jn (context_job env) in
     bind (existsSync env workingDirectory) (\<lambda>found.
     bind (if \<not> found
           then throw (Error (''Working directory does not exist: '' @ workingDirectory))
           else ret ()) (\<lambda>_.
     bind (emit (Info (''Setting up Go with version file: '' @ goVersionFile))) (\<lambda>_.
     bind (emit (Info (''Working directory: '' @ workingDirectory))) (\<lambda>_.
     bind (emit (Info (''Job name: '' @ jobName))) (\<lambda>_.
     ret (goVersionFile, workingDirectory, jobName))))))))))"

text \<open>Lines 48 to 65: the version named by the version file.\<close>

definition read_go_version :: "main_env \<Rightarrow> string \<Rightarrow> string \<Rightarrow> string comp" where
  "read_go_version env workingDirectory goVersionFile =
     bind (emit (Info ''Setting up Go...'')) (\<lambda>_.
     let goModPath = path_resolve env [workingDirectory, goVersionFile] in
     bind (existsSync env goModPath) (\<lambda>found.
     bind (if \<not> found then throw (Error (''Go version file not found: '' @ goModPath))
           else ret ()) (\<lambda>_.
     bind (readFileSync env goModPath) (\<lambda>goModContent.
     (case match_go_directive env goModContent of
        None \<Rightarrow> throw (Error (''Could not find Go version in '' @ goVersionFile))
      | Some goVersion \<Rightarrow>
          bind (emit (Info (''Found Go version '' @ goVersion @ '' in '' @ goVersionFile))) (\<lambda>_.
          ret goVersion))))))"

text \<open>Lines 67 to 106: download and installation of the toolchain.\<close>

definition install_go :: "main_env \<Rightarrow> string \<Rightarrow> unit comp" where
  "install_go env goVersion =
     (let platform = process_platform env;
          arch = (if process_arch env = ''x64'' then ''amd64'' else process_arch env);
          osName = (if platform = ''win32'' then ''windows''
                    else if platform = ''darwin'' then ''darwin'' else ''linux'');
          ext = (if platform = ''win32'' then ''zip'' else ''tar.gz'');
          goUrl = ''https://dl.google.com/go/go'' @ goVersion @ ''.'' @ osName @ ''-'' @ arch
                  @ ''.'' @ ext
      in
      bind (path_join_args env [home_dir env, Some ''go-install'', Some goVersion]) (\<lambda>goRoot.
      let goBin = path_join env
                    [goRoot, ''bin'', if platform = ''win32'' then ''go.exe'' else ''go''] in
      bind (existsSync env goBin) (\<lambda>found.
      bind (if \<not> found
            then
              bind (emit (Info (''Installing Go '' @ goVersion @ '' to '' @ goRoot))) (\<lambda>_.
              bind (mkdirSync env (path_dirname env goRoot)) (\<lambda>_.
              let downloadPath =
                    path_join env [env_or (process_env env ''RUNNER_TEMP'') ''/tmp'',
                                   ''go'' @ goVersion @ ''.'' @ ext] in
              bind (exec env ''curl'' [''-L'', ''-o'', downloadPath, goUrl]) (\<lambda>_.
              bind (if ext = ''tar.gz''
                    then
                      bind (exec env ''tar''
                              [''-xzf'', downloadPath, ''-C'', path_dirname env goRoot]) (\<lambda>_.
                      exec env ''mv'' [path_join env [path_dirname env goRoot, ''go''], goRoot])
                    else
                      bind (exec env ''unzip''
                              [downloadPath, ''-d'', path_dirname env goRoot]) (\<lambda>_.
                      exec env ''mv'' [path_join env [path_dirname env goRoot, ''go''], goRoot]))
                (\<lambda>_.
              unlinkSync env downloadPath))))
            else ret ()) (\<lambda>_.
      bind (emit (AddPath (path_join env [goRoot, ''bin'']))) (\<lambda>_.
      emit (ExportVariable ''GOROOT'' goRoot))))))"

text \<open>Lines 108 to 116: the installed version, as \<^verbatim>\<open>go version\<close> prints it.\<close>

definition verify_go :: "main_env \<Rightarrow> string comp" where
  "verify_go env =
     bind (getExecOutput env ''go'' [''version'']) (\<lambda>stdout.
     (case match_go_version env stdout of
        None \<Rightarrow> throw (Error ''Failed to verify Go installation'')
      | Some installedVersion \<Rightarrow>
          if installedVersion = [] then throw (Error ''Failed to verify Go installation'')
          else
            bind (emit (Info (''Go version: '' @ installedVersion))) (\<lambda>_.
            bind (emit (SetOutput ''go-version'' installedVersion)) (\<lambda>_.
            ret installedVersion))))"

text \<open>
  Lines 142 to 155: the call of the store under its own \<^verbatim>\<open>try\<close>. The value is the pair
  of the variables \<^verbatim>\<open>restoredKey\<close> and \<^verbatim>\<open>cacheHit\<close> after the statement; the call is
  the only statement of the block that can throw, and it comes before both assignments,
  so after a \<^verbatim>\<open>catch\<close> they hold their initial values.
\<close>

definition restore_attempt ::
  "main_env \<Rightarrow> string list \<Rightarrow> string \<Rightarrow> string list \<Rightarrow> (string option \<times> bool) comp" where
  "restore_attempt env cachePaths cacheKey restoreKeysArray =
     try_catch
       (bind (restoreCache_call env cachePaths cacheKey restoreKeysArray) (\<lambda>restoredKey.
        let cacheHit = (restoredKey = Some cacheKey) in
        bind (emit (Info (''Cache restore result: '' @
                (case restoredKey of None \<Rightarrow> ''miss''
                 | Some k \<Rightarrow> if k = [] then ''miss'' else ''hit'')))) (\<lambda>_.
        bind (case restoredKey of None \<Rightarrow> ret ()
              | Some k \<Rightarrow> if k = [] then ret ()
                          else emit (Info (''Restored cache key: '' @ k))) (\<lambda>_.
        ret (restoredKey, cacheHit)))))
       (\<lambda>error.
        bind (emit (Warning (''Cache restore failed: '' @ message error))) (\<lambda>_.
        ret (None, False)))"

text \<open>Lines 118 to 163: the cache step.\<close>

definition cache_step :: "main_env \<Rightarrow> string \<Rightarrow> string \<Rightarrow> string \<Rightarrow> unit comp" where
  "cache_step env workingDirectory jobName installedVersion =
     (let runner = env_or (process_env env ''RUNNER_OS'') ''Linux'';
          goSumPath = path_join env [workingDirectory, ''go.sum'']
      in
      bind (getFileHash env goSumPath) (\<lambda>goSumHash.
      let cacheKey = make_cacheKey runner installedVersion jobName goSumHash;
          restoreKeys = buildRestoreKeys runner installedVersion jobName goSumHash;
          cachePathsString = js_join [''~/.cache/go-build'', ''~/go/pkg/mod'']
      in
      bind (emit (Info (''Cache key: '' @ cacheKey))) (\<lambda>_.
      bind (emit (Info (''Cache paths: '' @ replace_LF cachePathsString))) (\<lambda>_.
      bind (emit (Info ''Restoring Go cache...'')) (\<lambda>_.
      bind (path_join_args env [home_dir env, Some ''.cache'', Some ''go-build'']) (\<lambda>p1.
      bind (path_join_args env [home_dir env, Some ''go'', Some ''pkg'', Some ''mod'']) (\<lambda>p2.
      let cachePaths = [p1, p2];
          restoreKeysArray = filter_Boolean (js_split restoreKeys)
      in
      bind (restore_attempt env cachePaths cacheKey restoreKeysArray) (\<lambda>attempt.
      let cacheHit = snd attempt in
      bind (emit (SaveState ''cache-key'' cacheKey)) (\<lambda>_.
      bind (emit (SaveState ''cache-paths'' (js_join cachePaths))) (\<lambda>_.
      bind (emit (SaveState ''cache-hit'' (bool_toString cacheHit))) (\<lambda>_.
      bind (emit (SetOutput ''cache-hit'' (bool_toString cacheHit))) (\<lambda>_.
      emit (Info (''Cache operation completed. Hit: '' @ bool_toString cacheHit))))))))))))))"

text \<open>Lines 30 to 116, what \<^verbatim>\<open>run\<close> does before the cache step. The value is
  \<open>(workingDirectory, jobName, installedVersion)\<close>.\<close>

definition before_cache :: "main_env \<Rightarrow> (string \<times> string \<times> string) comp" where
  "before_cache env =
     bind (read_inputs env) (\<lambda>(goVersionFile, workingDirectory, jobName).
     bind (read_go_version env workingDirectory goVersionFile) (\<lambda>goVersion.
     bind (install_go env goVersion) (\<lambda>_.
     bind (verify_go env) (\<lambda>installedVersion.
     ret (workingDirectory, jobName, installedVersion)))))"

definition main_body :: "main_env \<Rightarrow> unit comp" where
  "main_body env =
     bind (before_cache env) (\<lambda>(workingDirectory, jobName, installedVersion).
     cache_step env workingDirectory jobName installedVersion)"

text \<open>\<^verbatim>\<open>run\<close> of \<^verbatim>\<open>src/main.js\<close>: the body under the outer \<^verbatim>\<open>catch\<close>.\<close>

definition main_run :: "main_env \<Rightarrow> unit comp" where
  "main_run env =
     try_catch (main_body env)
       (\<lambda>error. emit (SetFailed (''Action failed: '' @ message error)))"

section \<open>The save phase: \<^verbatim>\<open>src/post.js\<close>\<close>

text \<open>
  The environment of the save phase: the source-control ref of \<^verbatim>\<open>github.context\<close>,
  the job state (the variables \<^verbatim>\<open>STATE_name\<close>), and the outcome of
  \<^verbatim>\<open>cache.saveCache\<close> (\<open>Some e\<close> when it rejects with \<open>e\<close>).
\<close>

record post_env =
  context_ref :: string
  job_state :: "string \<Rightarrow> string option"
  saveCache :: "string list \<Rightarrow> string \<Rightarrow> js_error option"

text \<open>\<^verbatim>\<open>core.getState(name)\<close> is \<^verbatim>\<open>process.env[`STATE_${name}`] || ''\<close>.\<close>

definition getState :: "post_env \<Rightarrow> string \<Rightarrow> string comp" where
  "getState env name =
     ([GetState name], Inr (case job_state env name of None \<Rightarrow> [] | Some v \<Rightarrow> v))"

definition saveCache_call :: "post_env \<Rightarrow> string list \<Rightarrow> string \<Rightarrow> unit comp" where
  "saveCache_call env paths key =
     ([SaveCache paths key],
      (case saveCache env paths key of None \<Rightarrow> Inr () | Some e \<Rightarrow> Inl e))"

text \<open>The body of the outer \<^verbatim>\<open>try\<close> of \<^verbatim>\<open>run\<close>, lines 7 to 47.\<close>

definition post_body :: "post_env \<Rightarrow> unit comp" where
  "post_body env =
     (let ref = context_ref env in
      bind (emit (Info (''Current ref: '' @ ref))) (\<lambda>_.
      if ref \<noteq> ''refs/heads/master''
      then emit (Info ''Not on master branch, skipping cache save'')
      else
        bind (getState env ''cache-hit'') (\<lambda>hit.
        let cacheHit = (hit = ''true'') in
        bind (emit (Info (''Cache hit: '' @ bool_toString cacheHit))) (\<lambda>_.
        if cacheHit
        then emit (Info ''Cache was hit, skipping cache save'')
        else
          bind (getState env ''cache-key'') (\<lambda>cacheKey.
          bind (getState env ''cache-paths'') (\<lambda>cachePaths.
          if cacheKey = [] \<or> cachePaths = []
          then emit (Warning ''Cache configuration not found in state, skipping save'')
          else
            bind (emit (Info (''Saving cache with key: '' @ cacheKey))) (\<lambda>_.
            bind (emit (Info (''Cache paths: '' @ replace_LF cachePaths))) (\<lambda>_.
            try_catch
              (let paths = filter_Boolean (js_split cachePaths) in
               bind (emit (Info ''Saving cache...'')) (\<lambda>_.
               bind (saveCache_call env paths cacheKey) (\<lambda>_.
               emit (Info ''Cache saved successfully''))))
              (\<lambda>error. emit (Warning (''Cache save failed: '' @ message error)))))))))))"

text \<open>\<^verbatim>\<open>run\<close> of \<^verbatim>\<open>src/post.js\<close>: the body under the outer \<^verbatim>\<open>catch\<close>.\<close>

definition post_run :: "post_env \<Rightarrow> unit comp" where
  "post_run env =
     try_catch (post_body env)
       (\<lambda>error. emit (Warning (''Post action failed: '' @ message error)))"

section \<open>Concrete environments\<close>

text \<open>
  A Linux runner whose toolchain is already installed: the version file names Go 1.22.0,
  no \<^verbatim>\<open>go.sum\<close> can be read, and the store holds no entry. The \<^verbatim>\<open>path\<close> functions
  are given on POSIX paths without \<^verbatim>\<open>..\<close> segments.
\<close>

fun slash_join :: "string list \<Rightarrow> string" where
  "slash_join [] = ''.''"
| "slash_join [x] = x"
| "slash_join (x # y # ys) = x @ ''/'' @ slash_join (y # ys)"

definition posix_join :: "string list \<Rightarrow> string" where
  "posix_join xs = slash_join (filter (\<lambda>x. x \<noteq> [] \<and> x \<noteq> ''.'') xs)"

definition runner_env :: main_env where
  "runner_env =
     \<lparr>inputs = (\<lambda>n. if n = ''go-version-file'' then ''go.mod''
                    else if n = ''working-directory'' then ''.'' else []),
      context_job = ''build'',
      process_env = (\<lambda>n. if n = ''HOME'' then Some ''/home/runner''
                         else if n = ''RUNNER_OS'' then Some ''Linux'' else None),
      process_platform = ''linux'',
      process_arch = ''x64'',
      fs_exists = (\<lambda>p. True),
      fs_read = (\<lambda>p. if p = ''/work/go.mod'' then Inr ''go 1.22.0''
                      else Inl (Error (''ENOENT: no such file or directory, open '' @ p))),
      fs_mkdir = (\<lambda>p. None),
      fs_unlink = (\<lambda>p. None),
      exec_outcome = (\<lambda>c as. None),
      exec_stdout = (\<lambda>c as. Inr ''go version go1.22.0 linux/amd64''),
      path_join = posix_join,
      path_resolve = (\<lambda>xs. ''/work/'' @ posix_join xs),
      path_dirname = (\<lambda>p. ''/home/runner/go-install''),
      match_go_directive = (\<lambda>s. if s = ''go 1.22.0'' then Some ''1.22.0'' else None),
      match_go_version =
        (\<lambda>s. if s = ''go version go1.22.0 linux/amd64'' then Some ''1.22.0'' else None),
      restoreCache = (\<lambda>ps k ks. Inr None)\<rparr>"

text \<open>Job states of the save phase, after an exact hit and after a miss, and a store
  that accepts every save.\<close>

definition hit_state :: "string \<Rightarrow> string option" where
  "hit_state = (\<lambda>n. if n = ''cache-hit'' then Some ''true'' else None)"

definition miss_state :: "string \<Rightarrow> string option" where
  "miss_state =
     (\<lambda>n. if n = ''cache-hit'' then Some ''false''
          else if n = ''cache-key'' then Some ''golang-Linux-1.22.0-build-missing''
          else if n = ''cache-paths''
          then Some (js_join [''/home/runner/.cache/go-build'', ''/home/runner/go/pkg/mod''])
          else None)"

definition post_example :: "string \<Rightarrow> (string \<Rightarrow> string option) \<Rightarrow> post_env" where
  "post_example ref st = \<lparr>context_ref = ref, job_state = st, saveCache = (\<lambda>ps k. None)\<rparr>"

text \<open>The same runner with a store that rejects every restore, and a store of the save
  phase that rejects every save.\<close>

definition failing_restore_env :: main_env where
  "failing_restore_env =
     runner_env\<lparr>restoreCache := (\<lambda>ps k ks. Inl (Error ''Cache service responded with 503''))\<rparr>"

definition failing_save_env :: post_env where
  "failing_save_env =
     (post_example ''refs/heads/master'' miss_state)
       \<lparr>saveCache := (\<lambda>ps k. Some (Error ''Cache already exists''))\<rparr>"

text \<open>The same runner with a store that holds an entry under the primary key, and with a
  store that holds an entry under the least specific key only.\<close>

definition exact_hit_env :: main_env where
  "exact_hit_env = runner_env\<lparr>restoreCache := (\<lambda>ps k ks. Inr (Some k))\<rparr>"

definition fallback_hit_env :: main_env where
  "fallback_hit_env = runner_env\<lparr>restoreCache := (\<lambda>ps k ks. Inr (Some ''golang-Linux''))\<rparr>"

text \<open>The same runner with a \<^verbatim>\<open>go.sum\<close> of well-formed UTF-8, with a \<^verbatim>\<open>go.sum\<close> that
  is the single byte 0xFF, and with the option \<^verbatim>\<open>cache-dependency-path\<close> naming a
  readable file while no \<^verbatim>\<open>go.sum\<close> lies in the working directory.\<close>

definition text_sum_env :: main_env where
  "text_sum_env =
     runner_env\<lparr>fs_read :=
       (\<lambda>p. if p = ''/work/go.mod'' then Inr ''go 1.22.0''
            else if p = ''go.sum'' then Inr [CHR ''v'', CHR ''1'', CHR '' '', CHR 0xC3, CHR 0xA9, LF]
            else Inl (Error (''ENOENT: no such file or directory, open '' @ p)))\<rparr>"

definition invalid_utf8_env :: main_env where
  "invalid_utf8_env =
     runner_env\<lparr>fs_read :=
       (\<lambda>p. if p = ''/work/go.mod'' then Inr ''go 1.22.0''
            else if p = ''go.sum'' then Inr [CHR 0xFF]
            else Inl (Error (''ENOENT: no such file or directory, open '' @ p)))\<rparr>"

definition dependency_path_env :: main_env where
  "dependency_path_env =
     runner_env\<lparr>inputs :=
       (\<lambda>n. if n = ''go-version-file'' then ''go.mod''
            else if n = ''working-directory'' then ''.''
            else if n = ''cache-dependency-path'' then ''deps/go.sum'' else []),
      fs_read :=
       (\<lambda>p. if p = ''/work/go.mod'' then Inr ''go 1.22.0''
            else if p = ''deps/go.sum'' then Inr ''example.com/m v1.0.0 h1:abc=''
            else Inl (Error (''ENOENT: no such file or directory, open '' @ p)))\<rparr>"

section \<open>Quiet computations\<close>

text \<open>A computation is quiet when it writes no state and no output, reports no failure and
  does not call the store.\<close>

definition quiet :: "'a comp \<Rightarrow> bool" where
  "quiet m =
     (state_writes (fst m) = [] \<and> outputs (fst m) = [] \<and> failures (fst m) = [] \<and>
      restoreCache_calls (fst m) = [])"

section \<open>Facts about splitting and joining\<close>

lemma js_split_no_LF: "LF \<notin> set s \<Longrightarrow> js_split s = [s]"
  by (induction s) auto

lemma js_split_append_LF:
  "LF \<notin> set x \<Longrightarrow> js_split (x @ LF # r) = x # js_split r"
  by (induction x) auto

lemma js_split_join:
  "ds \<noteq> [] \<Longrightarrow> list_all (\<lambda>d. LF \<notin> set d) ds \<Longrightarrow> js_split (js_join ds) = ds"
proof (induction ds rule: js_join.induct)
  case 1
  then show ?case by simp
next
  case (2 x)
  then show ?case by (simp add: js_split_no_LF)
next
  case (3 x y ys)
  then show ?case by (simp add: js_split_append_LF)
qed

lemma filter_Boolean_id:
  "list_all (\<lambda>d. d \<noteq> []) ds \<Longrightarrow> filter_Boolean ds = ds"
  by (induction ds) (auto simp: filter_Boolean_def)

lemma js_split_pieces: "p \<in> set (js_split s) \<Longrightarrow> LF \<notin> set p"
proof (induction s arbitrary: p)
  case Nil
  then show ?case by simp
next
  case (Cons c cs)
  then show ?case
    by (cases "js_split cs") (auto split: if_splits)
qed

lemma in_set_tl: "x \<in> set (tl xs) \<Longrightarrow> x \<in> set xs"
  by (cases xs) auto

lemma fallback_keys_differ:
  assumes "k \<in> set (tl (filter_Boolean (js_split (buildRestoreKeys r v j h))))"
  shows "k \<noteq> make_cacheKey r v j h"
proof (cases "LF \<in> set (make_cacheKey r v j h)")
  case True
  from assms have "k \<in> set (js_split (buildRestoreKeys r v j h))"
    by (auto dest: in_set_tl simp: filter_Boolean_def)
  then have "LF \<notin> set k" by (rule js_split_pieces)
  with True show ?thesis by auto
next
  case False
  then have nl: "LF \<notin> set r" "LF \<notin> set v" "LF \<notin> set j" "LF \<notin> set h" and g: "LF \<notin> set ''golang-''"
    by (auto simp: make_cacheKey_def)
  have "js_split (buildRestoreKeys r v j h) =
      [''golang-'' @ r @ ''-'' @ v @ ''-'' @ j @ ''-'' @ h, ''golang-'' @ r @ ''-'' @ v @ ''-'' @ j,
       ''golang-'' @ r @ ''-'' @ v, ''golang-'' @ r]"
    unfolding buildRestoreKeys_def using nl
    by (intro js_split_join) (simp_all add: LF_def)
  with assms show ?thesis
    by (auto simp: filter_Boolean_def make_cacheKey_def)
qed

section \<open>Facts about computations and traces\<close>

lemmas comp_defs = bind_def try_catch_def emit_def ret_def throw_def

lemmas call_defs = getInput_def getInput_required_def existsSync_def readFileSync_def
  mkdirSync_def unlinkSync_def exec_def getExecOutput_def restoreCache_call_def path_join_args_def

lemma state_writes_append: "state_writes (a @ b) = state_writes a @ state_writes b"
  by (induction a rule: state_writes.induct) auto

lemma outputs_append: "outputs (a @ b) = outputs a @ outputs b"
  by (induction a rule: outputs.induct) auto

lemma failures_append: "failures (a @ b) = failures a @ failures b"
  by (induction a rule: failures.induct) auto

lemma restoreCache_calls_append: "restoreCache_calls (a @ b) = restoreCache_calls a @ restoreCache_calls b"
  by (induction a rule: restoreCache_calls.induct) auto

lemma input_reads_append: "input_reads (a @ b) = input_reads a @ input_reads b"
  by (induction a rule: input_reads.induct) auto

lemma file_reads_append: "file_reads (a @ b) = file_reads a @ file_reads b"
  by (induction a rule: file_reads.induct) auto

lemmas trace_append = state_writes_append outputs_append failures_append restoreCache_calls_append
  input_reads_append file_reads_append

lemma fst_bind: "fst (bind m f) = fst m @ (case snd m of Inl e \<Rightarrow> [] | Inr x \<Rightarrow> fst (f x))"
  by (cases m) (auto simp: bind_def split: sum.splits prod.splits)

lemma snd_bind: "snd (bind m f) = (case snd m of Inl e \<Rightarrow> Inl e | Inr x \<Rightarrow> snd (f x))"
  by (cases m) (auto simp: bind_def split: sum.splits prod.splits)

lemma snd_bind_Inr: "snd (bind m f) = Inr y \<longleftrightarrow> (\<exists>x. snd m = Inr x \<and> snd (f x) = Inr y)"
  by (simp add: snd_bind split: sum.splits)

lemma quiet_bind: "quiet m \<Longrightarrow> (\<And>x. quiet (f x)) \<Longrightarrow> quiet (bind m f)"
  by (simp add: quiet_def fst_bind trace_append split: sum.splits)

lemma quiet_ret: "quiet (ret x)" and quiet_throw: "quiet (throw e)"
  by (simp_all add: quiet_def ret_def throw_def)

lemma quiet_if: "quiet a \<Longrightarrow> quiet b \<Longrightarrow> quiet (if c then a else b)"
  by simp

lemma quiet_case_option: "quiet a \<Longrightarrow> (\<And>x. quiet (f x)) \<Longrightarrow> quiet (case v of None \<Rightarrow> a | Some x \<Rightarrow> f x)"
  by (cases v) simp_all

lemma quiet_calls:
  "quiet (emit (Info s))" "quiet (emit (AddPath s))" "quiet (emit (ExportVariable n s))"
  "quiet (getInput env n)" "quiet (getInput_required env n)" "quiet (existsSync env p)"
  "quiet (readFileSync env p)" "quiet (mkdirSync env p)" "quiet (unlinkSync env p)"
  "quiet (exec env c as)" "quiet (getExecOutput env c as)" "quiet (path_join_args env os)"
  by (simp_all add: quiet_def comp_defs call_defs split: option.splits sum.splits)

lemmas quiet_rules = quiet_bind quiet_ret quiet_throw quiet_if quiet_case_option quiet_calls

section \<open>Evaluation on concrete inputs\<close>

lemma char_of_nat:
  "char_of (n::nat) =
     Char (odd n) (odd (n div 2)) (odd (n div 4)) (odd (n div 8))
          (odd (n div 16)) (odd (n div 32)) (odd (n div 64)) (odd (n div 128))"
  by (simp add: char_of_def bit_iff_odd_drop_bit drop_bit_eq_div)

lemmas utf8_defs = utf8_decode_def utf8_encode_def utf8_step_def utf8_lead_def utf8_initial_def
  utf8_encode_cp_def

lemmas main_defs = before_cache_def read_inputs_def read_go_version_def install_go_def
  verify_go_def cache_step_def restore_attempt_def getFileHash_def main_run_def main_body_def
  home_dir_def env_or_def or_else_def make_cacheKey_def buildRestoreKeys_def
  filter_Boolean_def bool_toString_def posix_join_def LF_def Let_def

lemmas post_defs = post_run_def post_body_def getState_def saveCache_call_def
  bool_toString_def Let_def

lemma utf8_go_mod: "utf8_encode (utf8_decode ''go 1.22.0'') = ''go 1.22.0''"
  by (simp add: utf8_defs char_of_nat)

section \<open>The restore phase before and in its cache step\<close>

lemma read_inputs_quiet: "quiet (read_inputs env)"
  unfolding read_inputs_def Let_def by (intro quiet_rules)

lemma read_go_version_quiet: "quiet (read_go_version env wd f)"
  unfolding read_go_version_def Let_def by (intro quiet_rules)

lemma install_go_quiet: "quiet (install_go env v)"
  unfolding install_go_def Let_def by (intro quiet_rules)

lemma install_go_home:
  "snd (install_go env v) = Inr u \<Longrightarrow> \<exists>h. home_dir env = Some h"
  by (cases "home_dir env") (simp_all add: install_go_def Let_def snd_bind_Inr path_join_args_def throw_def)

lemma verify_go_trace:
  "state_writes (fst (verify_go env)) = [] \<and>
   failures (fst (verify_go env)) = [] \<and> restoreCache_calls (fst (verify_go env)) = []"
  by (simp add: verify_go_def comp_defs call_defs Let_def trace_append split: sum.splits prod.splits option.splits)

lemma verify_go_outputs:
  "snd (verify_go env) = Inr v \<Longrightarrow> outputs (fst (verify_go env)) = [(''go-version'', v)]"
  by (auto simp add: verify_go_def comp_defs call_defs Let_def trace_append split: sum.splits prod.splits option.splits if_splits)


lemma before_cache_trace:
  assumes "snd (before_cache env) = Inr (wd, job, ver)"
  shows "state_writes (fst (before_cache env)) = []"
    and "failures (fst (before_cache env)) = []"
    and "restoreCache_calls (fst (before_cache env)) = []"
    and "outputs (fst (before_cache env)) = [(''go-version'', ver)]"
    and "\<exists>h. home_dir env = Some h"
proof -
  from assms obtain f g where
    a: "snd (read_inputs env) = Inr (f, wd, job)" and
    b: "snd (read_go_version env wd f) = Inr g" and
    c: "snd (install_go env g) = Inr ()" and
    d: "snd (verify_go env) = Inr ver"
    by (auto simp: before_cache_def snd_bind_Inr ret_def)
  have t: "fst (before_cache env) =
      fst (read_inputs env) @ fst (read_go_version env wd f) @ fst (install_go env g) @
      fst (verify_go env)"
    using a b c d by (simp add: before_cache_def fst_bind ret_def)
  note q = read_inputs_quiet [of env] read_go_version_quiet [of env wd f]
    install_go_quiet [of env g]
  show "state_writes (fst (before_cache env)) = []"
    using q verify_go_trace [of env] by (simp add: t trace_append quiet_def)
  show "failures (fst (before_cache env)) = []"
    using q verify_go_trace [of env] by (simp add: t trace_append quiet_def)
  show "restoreCache_calls (fst (before_cache env)) = []"
    using q verify_go_trace [of env] by (simp add: t trace_append quiet_def)
  show "outputs (fst (before_cache env)) = [(''go-version'', ver)]"
    using q verify_go_outputs [OF d] by (simp add: t trace_append quiet_def)
  show "\<exists>h. home_dir env = Some h"
    using c by (rule install_go_home)
qed

lemma getFileHash_outcome:
  "getFileHash env p =
     (case fs_read env p of
        Inl e \<Rightarrow> ([ReadFile p, Warning (''Could not read '' @ p @ '': '' @ message e)],
                  Inr ''missing'')
      | Inr bs \<Rightarrow> ([ReadFile p], Inr (take 8 (sha256_hex (utf8_encode (utf8_decode bs))))))"
  by (simp add: getFileHash_def readFileSync_def comp_defs split: sum.splits)

lemma getFileHash_total: "\<exists>h. snd (getFileHash env p) = Inr h"
  by (simp add: getFileHash_outcome split: sum.splits)

lemma getFileHash_quiet: "quiet (getFileHash env p)"
  by (simp add: getFileHash_outcome quiet_def split: sum.splits)

lemma restore_attempt_value:
  "snd (restore_attempt env cp key ks) =
     Inr (case restoreCache env cp key ks of Inl e \<Rightarrow> (None, False)
          | Inr r \<Rightarrow> (r, r = Some key))"
  by (simp add: restore_attempt_def restoreCache_call_def comp_defs
      split: sum.splits option.splits)

lemma restore_attempt_trace:
  "restoreCache_calls (fst (restore_attempt env cp key ks)) = [(cp, key, ks)]"
  "state_writes (fst (restore_attempt env cp key ks)) = []"
  "outputs (fst (restore_attempt env cp key ks)) = []"
  "failures (fst (restore_attempt env cp key ks)) = []"
  by (simp_all add: restore_attempt_def restoreCache_call_def comp_defs
      split: sum.splits option.splits)

lemma cache_step_outcome:
  assumes home: "home_dir env = Some home"
    and hash: "snd (getFileHash env (path_join env [wd, ''go.sum''])) = Inr goSumHash"
    and key: "cacheKey = make_cacheKey (env_or (process_env env ''RUNNER_OS'') ''Linux'') ver job goSumHash"
    and paths: "cachePaths = [path_join env [home, ''.cache'', ''go-build''],
                             path_join env [home, ''go'', ''pkg'', ''mod'']]"
    and keys: "keys = filter_Boolean (js_split
        (buildRestoreKeys (env_or (process_env env ''RUNNER_OS'') ''Linux'') ver job goSumHash))"
    and hit: "cacheHit = (restoreCache env cachePaths cacheKey keys = Inr (Some cacheKey))"
  shows "snd (cache_step env wd job ver) = Inr ()"
    and "restoreCache_calls (fst (cache_step env wd job ver)) = [(cachePaths, cacheKey, keys)]"
    and "state_writes (fst (cache_step env wd job ver)) =
          [(''cache-key'', cacheKey), (''cache-paths'', js_join cachePaths),
           (''cache-hit'', bool_toString cacheHit)]"
    and "outputs (fst (cache_step env wd job ver)) = [(''cache-hit'', bool_toString cacheHit)]"
    and "failures (fst (cache_step env wd job ver)) = []"
proof -
  obtain t0 where g: "getFileHash env (path_join env [wd, ''go.sum'']) = (t0, Inr goSumHash)"
    using hash by (cases "getFileHash env (path_join env [wd, ''go.sum''])") simp
  obtain t1 r where a: "restore_attempt env cachePaths cacheKey keys = (t1, Inr (r, cacheHit))"
    using restore_attempt_value [of env cachePaths cacheKey keys] hit
    by (cases "restore_attempt env cachePaths cacheKey keys") (auto split: sum.splits)
  have c: "cache_step env wd job ver =
      (t0 @ [Info (''Cache key: '' @ cacheKey),
             Info (''Cache paths: '' @ replace_LF (js_join [''~/.cache/go-build'', ''~/go/pkg/mod''])),
             Info ''Restoring Go cache...''] @ t1 @
       [SaveState ''cache-key'' cacheKey, SaveState ''cache-paths'' (js_join cachePaths),
        SaveState ''cache-hit'' (bool_toString cacheHit),
        SetOutput ''cache-hit'' (bool_toString cacheHit),
        Info (''Cache operation completed. Hit: '' @ bool_toString cacheHit)], Inr ())"
    using g a
    by (simp add: cache_step_def Let_def home path_join_args_def comp_defs
        key [symmetric] paths [symmetric] keys [symmetric] del: js_join.simps replace_LF.simps)
  have t1: "restoreCache_calls t1 = [(cachePaths, cacheKey, keys)]" "state_writes t1 = []"
    "outputs t1 = []" "failures t1 = []"
    using restore_attempt_trace [of env cachePaths cacheKey keys] by (simp_all add: a)
  have t0: "restoreCache_calls t0 = []" "state_writes t0 = []" "outputs t0 = []" "failures t0 = []"
    using getFileHash_quiet [of env "path_join env [wd, ''go.sum'']"] by (simp_all add: g quiet_def)
  show "snd (cache_step env wd job ver) = Inr ()"
    by (simp add: c)
  show "restoreCache_calls (fst (cache_step env wd job ver)) = [(cachePaths, cacheKey, keys)]"
    by (simp add: c trace_append t0 t1)
  show "state_writes (fst (cache_step env wd job ver)) =
          [(''cache-key'', cacheKey), (''cache-paths'', js_join cachePaths),
           (''cache-hit'', bool_toString cacheHit)]"
    by (simp add: c trace_append t0 t1)
  show "outputs (fst (cache_step env wd job ver)) = [(''cache-hit'', bool_toString cacheHit)]"
    by (simp add: c trace_append t0 t1)
  show "failures (fst (cache_step env wd job ver)) = []"
    by (simp add: c trace_append t0 t1)
qed


lemma main_run_reaching:
  assumes "snd (before_cache env) = Inr (wd, job, ver)"
  shows "main_run env = (fst (before_cache env) @ fst (cache_step env wd job ver), Inr ())"
proof -
  obtain h where h: "home_dir env = Some h"
    using before_cache_trace(5) [OF assms] by blast
  obtain g where g: "snd (getFileHash env (path_join env [wd, ''go.sum''])) = Inr g"
    using getFileHash_total by blast
  have "snd (cache_step env wd job ver) = Inr ()"
    by (rule cache_step_outcome(1) [OF h g refl refl refl refl])
  then show ?thesis
    using assms
    by (cases "before_cache env"; cases "cache_step env wd job ver")
       (simp add: main_run_def main_body_def bind_def try_catch_def)
qed

section \<open>Decoding and encoding well-formed UTF-8\<close>

lemma step_ascii: "b \<le> 0x7F \<Longrightarrow> utf8_step utf8_initial b = (utf8_initial, [b])"
  by (simp add: utf8_step_def utf8_lead_def utf8_initial_def)

lemma step_lead2:
  "0xC2 \<le> b \<Longrightarrow> b \<le> 0xDF \<Longrightarrow>
   utf8_step utf8_initial b = (utf8_initial\<lparr>bytes_needed := 1, code_point := b mod 32\<rparr>, [])"
  by (simp add: utf8_step_def utf8_lead_def utf8_initial_def)

lemma step_lead3:
  "0xE0 \<le> b \<Longrightarrow> b \<le> 0xEF \<Longrightarrow>
   utf8_step utf8_initial b =
     (utf8_initial\<lparr>lower_boundary := (if b = 0xE0 then 0xA0 else 0x80),
                    upper_boundary := (if b = 0xED then 0x9F else 0xBF),
                    bytes_needed := 2, code_point := b mod 16\<rparr>, [])"
  by (simp add: utf8_step_def utf8_lead_def utf8_initial_def)

lemma step_lead4:
  "0xF0 \<le> b \<Longrightarrow> b \<le> 0xF4 \<Longrightarrow>
   utf8_step utf8_initial b =
     (utf8_initial\<lparr>lower_boundary := (if b = 0xF0 then 0x90 else 0x80),
                    upper_boundary := (if b = 0xF4 then 0x8F else 0xBF),
                    bytes_needed := 3, code_point := b mod 8\<rparr>, [])"
  by (simp add: utf8_step_def utf8_lead_def utf8_initial_def)

lemma step_middle:
  "bytes_needed st \<noteq> 0 \<Longrightarrow> lower_boundary st \<le> b \<Longrightarrow> b \<le> upper_boundary st \<Longrightarrow>
   bytes_seen st + 1 \<noteq> bytes_needed st \<Longrightarrow>
   utf8_step st b =
     (st\<lparr>lower_boundary := 0x80, upper_boundary := 0xBF,
         code_point := code_point st * 64 + b mod 64, bytes_seen := bytes_seen st + 1\<rparr>, [])"
  by (simp add: utf8_step_def)

lemma step_last:
  "bytes_needed st \<noteq> 0 \<Longrightarrow> lower_boundary st \<le> b \<Longrightarrow> b \<le> upper_boundary st \<Longrightarrow>
   bytes_seen st + 1 = bytes_needed st \<Longrightarrow>
   utf8_step st b = (utf8_initial, [code_point st * 64 + b mod 64])"
  by (simp add: utf8_step_def)

lemma initial_fields:
  "code_point utf8_initial = 0" "bytes_seen utf8_initial = 0" "bytes_needed utf8_initial = 0"
  "lower_boundary utf8_initial = 0x80" "upper_boundary utf8_initial = 0xBF"
  by (simp_all add: utf8_initial_def)

lemma run1: "b \<le> 0x7F \<Longrightarrow> utf8_run utf8_initial (b # r) = b # utf8_run utf8_initial r"
  by (simp add: step_ascii)

lemma run2:
  "0xC2 \<le> b0 \<Longrightarrow> b0 \<le> 0xDF \<Longrightarrow> 0x80 \<le> b1 \<Longrightarrow> b1 \<le> 0xBF \<Longrightarrow>
   utf8_run utf8_initial (b0 # b1 # r) = (b0 mod 32 * 64 + b1 mod 64) # utf8_run utf8_initial r"
  by (simp add: step_lead2 step_last initial_fields)

lemma run3:
  "0xE0 \<le> b0 \<Longrightarrow> b0 \<le> 0xEF \<Longrightarrow>
   (if b0 = 0xE0 then 0xA0 else 0x80) \<le> b1 \<Longrightarrow> b1 \<le> (if b0 = 0xED then 0x9F else 0xBF) \<Longrightarrow>
   0x80 \<le> b2 \<Longrightarrow> b2 \<le> 0xBF \<Longrightarrow>
   utf8_run utf8_initial (b0 # b1 # b2 # r) =
     ((b0 mod 16 * 64 + b1 mod 64) * 64 + b2 mod 64) # utf8_run utf8_initial r"
  by (simp add: step_lead3 step_middle step_last initial_fields)

lemma run4:
  "0xF0 \<le> b0 \<Longrightarrow> b0 \<le> 0xF4 \<Longrightarrow>
   (if b0 = 0xF0 then 0x90 else 0x80) \<le> b1 \<Longrightarrow> b1 \<le> (if b0 = 0xF4 then 0x8F else 0xBF) \<Longrightarrow>
   0x80 \<le> b2 \<Longrightarrow> b2 \<le> 0xBF \<Longrightarrow> 0x80 \<le> b3 \<Longrightarrow> b3 \<le> 0xBF \<Longrightarrow>
   utf8_run utf8_initial (b0 # b1 # b2 # b3 # r) =
     (((b0 mod 8 * 64 + b1 mod 64) * 64 + b2 mod 64) * 64 + b3 mod 64) # utf8_run utf8_initial r"
  by (simp add: step_lead4 step_middle step_last initial_fields)



lemma mod_offset:
  assumes "k * m \<le> (b::nat)" "b < k * m + m"
  shows "b mod m = b - k * m"
proof -
  have "b = (b - k * m) + k * m" using assms(1) by simp
  then have "b mod m = ((b - k * m) + k * m) mod m" by simp
  also have "\<dots> = (b - k * m) mod m" by (rule mod_mult_self1)
  also have "\<dots> = b - k * m" using assms by (intro mod_less) linarith
  finally show ?thesis .
qed

lemma lead2_mod: "194 \<le> (b::nat) \<Longrightarrow> b \<le> 223 \<Longrightarrow> b mod 32 = b - 192"
  using mod_offset [of 6 32 b] by simp

lemma lead3_mod: "224 \<le> (b::nat) \<Longrightarrow> b \<le> 239 \<Longrightarrow> b mod 16 = b - 224"
  using mod_offset [of 14 16 b] by simp

lemma lead4_mod: "240 \<le> (b::nat) \<Longrightarrow> b \<le> 244 \<Longrightarrow> b mod 8 = b - 240"
  using mod_offset [of 30 8 b] by simp

lemma cont_mod: "128 \<le> (b::nat) \<Longrightarrow> b \<le> 191 \<Longrightarrow> b mod 64 = b - 128"
  using mod_offset [of 2 64 b] by simp

lemma enc1: "b \<le> 127 \<Longrightarrow> utf8_encode_cp b = [char_of b]"
  by (simp add: utf8_encode_cp_def)

lemma pack_bound: "(t::nat) < 4096 \<Longrightarrow> w < 64 \<Longrightarrow> t * 64 + w < 262144"
  by arith

lemma divmod_digit: "r < m \<Longrightarrow> (q * m + r) div m = q \<and> (q * m + r) mod m = (r::nat)"
  by simp

lemma enc_cp2:
  "\<not> c < 128 \<Longrightarrow> c < 2048 \<Longrightarrow>
   utf8_encode_cp c = [char_of (192 + c div 64), char_of (128 + c mod 64)]"
  by (simp add: utf8_encode_cp_def)

lemma enc_cp3:
  "\<not> c < 2048 \<Longrightarrow> c < 65536 \<Longrightarrow> c < 55296 \<or> 57343 < c \<Longrightarrow>
   utf8_encode_cp c =
     [char_of (224 + c div 4096), char_of (128 + c div 64 mod 64), char_of (128 + c mod 64)]"
  unfolding utf8_encode_cp_def by auto

lemma enc_cp4:
  "\<not> c < 65536 \<Longrightarrow>
   utf8_encode_cp c =
     [char_of (240 + c div 262144), char_of (128 + c div 4096 mod 64),
      char_of (128 + c div 64 mod 64), char_of (128 + c mod 64)]"
  by (simp add: utf8_encode_cp_def)

lemma enc2:
  assumes "0xC2 \<le> b0" "b0 \<le> 0xDF" "0x80 \<le> b1" "b1 \<le> 0xBF"
  shows "utf8_encode_cp (b0 mod 32 * 64 + b1 mod 64) = [char_of b0, char_of (b1::nat)]"
proof -
  define x where "x = b0 - 192"
  define y where "y = b1 - 128"
  have x: "192 + x = b0" "x < 32" "2 \<le> x" and y: "128 + y = b1" "y < 64"
    using assms by (simp_all add: x_def y_def)
  have m: "b0 mod 32 = x" "b1 mod 64 = y"
    using assms by (simp_all add: lead2_mod cont_mod x_def y_def)
  define c where "c = x * 64 + y"
  have d: "c div 64 = x" "c mod 64 = y"
    using divmod_digit [OF y(2), of x] by (simp_all only: c_def)
  have r: "\<not> c < 128" "c < 2048"
    using x(2,3) y(2) unfolding c_def by linarith+
  have "utf8_encode_cp c = [char_of (192 + x), char_of (128 + y)]"
    using enc_cp2 [OF r] by (simp only: d)
  then show ?thesis
    by (simp only: m x(1) y(1) c_def)
qed

lemma enc3:
  assumes "0xE0 \<le> b0" "b0 \<le> 0xEF"
    and "(if b0 = 0xE0 then 0xA0 else 0x80) \<le> b1" "b1 \<le> (if b0 = 0xED then 0x9F else 0xBF)"
    and "0x80 \<le> b2" "b2 \<le> 0xBF"
  shows "utf8_encode_cp ((b0 mod 16 * 64 + b1 mod 64) * 64 + b2 mod 64) =
           [char_of b0, char_of b1, char_of (b2::nat)]"
proof -
  define x where "x = b0 - 224"
  define y where "y = b1 - 128"
  define z where "z = b2 - 128"
  have b1: "128 \<le> b1" "b1 \<le> 191"
    using assms(3,4) by (simp_all split: if_splits)
  have x: "224 + x = b0" "x < 16" and y: "128 + y = b1" "y < 64" and z: "128 + z = b2" "z < 64"
    using assms(1,2,5,6) b1 by (simp_all add: x_def y_def z_def)
  have lo: "x = 0 \<Longrightarrow> 32 \<le> y" and hi: "x = 13 \<Longrightarrow> y < 32"
    using assms(3,4) x(1) y(1) by (auto split: if_splits)
  have m: "b0 mod 16 = x" "b1 mod 64 = y" "b2 mod 64 = z"
    using assms(1,2,5,6) b1 by (simp_all add: lead3_mod cont_mod x_def y_def z_def)
  define c where "c = (x * 64 + y) * 64 + z"
  have c4096: "c = x * 4096 + (y * 64 + z)"
    by (simp add: c_def algebra_simps)
  have yz: "y * 64 + z < 4096" using y(2) z(2) by linarith
  have d1: "c div 4096 = x"
    using divmod_digit [OF yz, of x] by (simp only: c4096)
  have d2: "c div 64 = x * 64 + y" "c mod 64 = z"
    using divmod_digit [OF z(2), of "x * 64 + y"] by (simp_all only: c_def)
  have d3: "c div 64 mod 64 = y"
    using divmod_digit [OF y(2), of x] by (simp only: d2)
  have r: "\<not> c < 2048" "c < 65536" "c < 55296 \<or> 57343 < c"
  proof -
    show "\<not> c < 2048" using lo x(2) y(2) z(2) unfolding c4096 by (cases "x = 0") linarith+
    show "c < 65536" using x(2) y(2) z(2) unfolding c4096 by linarith
    show "c < 55296 \<or> 57343 < c"
    proof (cases "x = 13")
      case True
      with hi have "y < 32" by simp
      then show ?thesis using True z(2) unfolding c4096 by linarith
    next
      case False
      then have "x < 13 \<or> 13 < x" by linarith
      then show ?thesis using y(2) z(2) unfolding c4096 by linarith
    qed
  qed
  have "utf8_encode_cp c = [char_of (224 + x), char_of (128 + y), char_of (128 + z)]"
    using enc_cp3 [OF r] by (simp only: d1 d2(2) d3)
  then show ?thesis
    by (simp only: m x(1) y(1) z(1) c_def)
qed

lemma enc4:
  assumes "0xF0 \<le> b0" "b0 \<le> 0xF4"
    and "(if b0 = 0xF0 then 0x90 else 0x80) \<le> b1" "b1 \<le> (if b0 = 0xF4 then 0x8F else 0xBF)"
    and "0x80 \<le> b2" "b2 \<le> 0xBF" and "0x80 \<le> b3" "b3 \<le> 0xBF"
  shows "utf8_encode_cp (((b0 mod 8 * 64 + b1 mod 64) * 64 + b2 mod 64) * 64 + b3 mod 64) =
           [char_of b0, char_of b1, char_of b2, char_of (b3::nat)]"
proof -
  define x where "x = b0 - 240"
  define y where "y = b1 - 128"
  define z where "z = b2 - 128"
  define w where "w = b3 - 128"
  have b1: "128 \<le> b1" "b1 \<le> 191"
    using assms(3,4) by (simp_all split: if_splits)
  have x: "240 + x = b0" "x < 8" and y: "128 + y = b1" "y < 64" and z: "128 + z = b2" "z < 64"
    and w: "128 + w = b3" "w < 64"
    using assms(1,2,5,6,7,8) b1 by (simp_all add: x_def y_def z_def w_def)
  have lo: "x = 0 \<Longrightarrow> 16 \<le> y"
    using assms(3) x(1) y(1) by (auto split: if_splits)
  have m: "b0 mod 8 = x" "b1 mod 64 = y" "b2 mod 64 = z" "b3 mod 64 = w"
    using assms(1,2,5,6,7,8) b1 by (simp_all add: lead4_mod cont_mod x_def y_def z_def w_def)
  define c where "c = ((x * 64 + y) * 64 + z) * 64 + w"
  have c18: "c = x * 262144 + ((y * 64 + z) * 64 + w)"
    and c12: "c = (x * 64 + y) * 4096 + (z * 64 + w)"
    by (simp_all add: c_def algebra_simps)
  have "y * 64 + z < 4096" using y(2) z(2) by linarith
  then have yzw: "(y * 64 + z) * 64 + w < 262144" using w(2) by (rule pack_bound)
  have zw: "z * 64 + w < 4096" using z(2) w(2) by linarith
  have d1: "c div 262144 = x"
    using divmod_digit [OF yzw, of x] by (simp only: c18)
  have d2: "c div 4096 = x * 64 + y"
    using divmod_digit [OF zw, of "x * 64 + y"] by (simp only: c12)
  have d3: "c div 4096 mod 64 = y"
    using divmod_digit [OF y(2), of x] by (simp only: d2)
  have d4: "c div 64 = (x * 64 + y) * 64 + z" "c mod 64 = w"
    using divmod_digit [OF w(2), of "(x * 64 + y) * 64 + z"] by (simp_all only: c_def)
  have d5: "c div 64 mod 64 = z"
    using divmod_digit [OF z(2), of "x * 64 + y"] by (simp only: d4)
  have flat: "c = x * 262144 + y * 4096 + z * 64 + w"
    by (simp add: c_def algebra_simps)
  have r: "\<not> c < 65536"
    using lo unfolding flat by (cases "x = 0") linarith+
  have "utf8_encode_cp c =
      [char_of (240 + x), char_of (128 + y), char_of (128 + z), char_of (128 + w)]"
    using enc_cp4 [OF r] by (simp only: d1 d3 d4(2) d5)
  then show ?thesis
    by (simp only: m x(1) y(1) z(1) w(1) c_def)
qed


lemma utf8_encode_Cons: "utf8_encode (c # cs) = utf8_encode_cp c @ utf8_encode cs"
  by (simp add: utf8_encode_def)

lemma utf8_run_Nil: "utf8_run utf8_initial [] = []"
  by (simp add: initial_fields)

lemma wf_roundtrip:
  "wf_bytes ns \<Longrightarrow> utf8_encode (utf8_run utf8_initial ns) = map char_of ns"
proof (induction ns rule: length_induct)
  case (1 ns)
  show ?case
  proof (cases ns)
    case Nil
    then show ?thesis by (simp add: initial_fields utf8_encode_def)
  next
    case (Cons b0 bs)
    note wf = "1.prems" [unfolded Cons]
    have IH: "wf_bytes r \<Longrightarrow> length r < length ns \<Longrightarrow>
        utf8_encode (utf8_run utf8_initial r) = map char_of r" for r
      using "1.IH" by blast
    consider (one) "b0 \<le> 0x7F"
      | (two) "0xC2 \<le> b0" "b0 \<le> 0xDF"
      | (three) "0xE0 \<le> b0" "b0 \<le> 0xEF"
      | (four) "0xF0 \<le> b0" "b0 \<le> 0xF4"
      using wf by (simp split: if_splits)
    then show ?thesis
    proof cases
      case one
      with wf have "wf_bytes bs" by simp
      then have "utf8_encode (utf8_run utf8_initial bs) = map char_of bs"
        by (rule IH) (simp add: Cons)
      then show ?thesis
        using one by (simp add: Cons run1 utf8_encode_Cons enc1 del: utf8_run.simps)
    next
      case two
      with wf obtain b1 r where bs: "bs = b1 # r" and c: "0x80 \<le> b1" "b1 \<le> 0xBF" and r: "wf_bytes r"
        by (cases bs) (auto split: if_splits)
      have "utf8_encode (utf8_run utf8_initial r) = map char_of r"
        using r by (rule IH) (simp add: Cons bs)
      then show ?thesis
        using two c by (simp add: Cons bs run2 utf8_encode_Cons enc2 del: utf8_run.simps)
    next
      case three
      with wf obtain b1 b2 r where bs: "bs = b1 # b2 # r"
        and c: "(if b0 = 0xE0 then 0xA0 else 0x80) \<le> b1" "b1 \<le> (if b0 = 0xED then 0x9F else 0xBF)"
          "0x80 \<le> b2" "b2 \<le> 0xBF"
        and r: "wf_bytes r"
        by (cases bs; cases "tl bs") (auto split: if_splits)
      have "utf8_encode (utf8_run utf8_initial r) = map char_of r"
        using r by (rule IH) (simp add: Cons bs)
      then show ?thesis
        using run3 [OF three c, of r] enc3 [OF three c]
        by (simp add: Cons bs utf8_encode_Cons del: utf8_run.simps)
    next
      case four
      with wf obtain b1 b2 b3 r where bs: "bs = b1 # b2 # b3 # r"
        and c: "(if b0 = 0xF0 then 0x90 else 0x80) \<le> b1" "b1 \<le> (if b0 = 0xF4 then 0x8F else 0xBF)"
          "0x80 \<le> b2" "b2 \<le> 0xBF" "0x80 \<le> b3" "b3 \<le> 0xBF"
        and r: "wf_bytes r"
        by (cases bs; cases "tl bs"; cases "tl (tl bs)") (auto split: if_splits)
      have "utf8_encode (utf8_run utf8_initial r) = map char_of r"
        using r by (rule IH) (simp add: Cons bs)
      then show ?thesis
        using run4 [OF four c, of r] enc4 [OF four c]
        by (simp add: Cons bs utf8_encode_Cons del: utf8_run.simps)
    qed
  qed
qed

lemma well_formed_roundtrip:
  "well_formed_utf8 bs \<Longrightarrow> utf8_encode (utf8_decode bs) = bs"
  by (simp add: well_formed_utf8_def utf8_decode_def wf_roundtrip comp_def)

section \<open>SHA-256 on concrete messages\<close>

lemma replicate_numeral: "replicate (numeral k) x = x # replicate (pred_numeral k) x"
  by (simp add: numeral_eq_Suc)

lemmas sha_defs = sha256_hex_def sha256_def pad_def hex32_def hex_digit_def compress_def
  K256_def H256_def big_sigma0_def big_sigma1_def small_sigma0_def small_sigma1_def
  sha_ch_def sha_maj_def rotr_def add32_def T1_def T2_def shift_vars_def replicate_numeral

text \<open>The one-block example of the standard.\<close>

lemma sha256_hex_abc:
  "sha256_hex ''abc'' = ''ba7816bf8f01cfea414140de5dae2223b00361a396177a9cb410ff61f20015ad''"
  by (simp add: sha_defs)

lemma sha256_hex_FF: "take 8 (sha256_hex [CHR 0xFF]) = ''a8100ae6''"
  by (simp add: sha_defs)

lemma sha256_hex_FFFD: "take 8 (sha256_hex [CHR 0xEF, CHR 0xBF, CHR 0xBD]) = ''83d544cc''"
  by (simp add: sha_defs)

lemma utf8_FF: "utf8_encode (utf8_decode [CHR 0xFF]) = [CHR 0xEF, CHR 0xBF, CHR 0xBD]"
  by (simp add: utf8_defs char_of_nat)

section \<open>The option \<^verbatim>\<open>cache-dependency-path\<close>\<close>

lemma update_inputs_fields:
  "context_job (env\<lparr>inputs := i\<rparr>) = context_job env"
  "process_env (env\<lparr>inputs := i\<rparr>) = process_env env"
  "process_platform (env\<lparr>inputs := i\<rparr>) = process_platform env"
  "process_arch (env\<lparr>inputs := i\<rparr>) = process_arch env"
  "path_join (env\<lparr>inputs := i\<rparr>) = path_join env"
  "path_resolve (env\<lparr>inputs := i\<rparr>) = path_resolve env"
  "path_dirname (env\<lparr>inputs := i\<rparr>) = path_dirname env"
  "match_go_directive (env\<lparr>inputs := i\<rparr>) = match_go_directive env"
  "match_go_version (env\<lparr>inputs := i\<rparr>) = match_go_version env"
  "home_dir (env\<lparr>inputs := i\<rparr>) = home_dir env"
  by (simp_all add: home_dir_def split: option.splits)

lemma update_inputs_calls:
  "existsSync (env\<lparr>inputs := i\<rparr>) = existsSync env"
  "readFileSync (env\<lparr>inputs := i\<rparr>) = readFileSync env"
  "mkdirSync (env\<lparr>inputs := i\<rparr>) = mkdirSync env"
  "unlinkSync (env\<lparr>inputs := i\<rparr>) = unlinkSync env"
  "exec (env\<lparr>inputs := i\<rparr>) = exec env"
  "getExecOutput (env\<lparr>inputs := i\<rparr>) = getExecOutput env"
  "restoreCache_call (env\<lparr>inputs := i\<rparr>) = restoreCache_call env"
  "path_join_args (env\<lparr>inputs := i\<rparr>) = path_join_args env"
  by (simp_all add: fun_eq_iff call_defs split: option.splits)

lemma update_inputs_getInput:
  "getInput_required (env\<lparr>inputs := (inputs env)(''cache-dependency-path'' := v)\<rparr>)
     ''go-version-file'' = getInput_required env ''go-version-file''"
  "getInput (env\<lparr>inputs := (inputs env)(''cache-dependency-path'' := v)\<rparr>)
     ''working-directory'' = getInput env ''working-directory''"
  "getInput (env\<lparr>inputs := (inputs env)(''cache-dependency-path'' := v)\<rparr>)
     ''job-name'' = getInput env ''job-name''"
  by (simp_all add: getInput_def getInput_required_def)

lemma ignores_read_inputs:
  "read_inputs (env\<lparr>inputs := (inputs env)(''cache-dependency-path'' := v)\<rparr>) = read_inputs env"
  unfolding read_inputs_def update_inputs_getInput update_inputs_fields update_inputs_calls ..

lemma ignores_read_go_version:
  "read_go_version (env\<lparr>inputs := i\<rparr>) wd f = read_go_version env wd f"
  unfolding read_go_version_def update_inputs_fields update_inputs_calls ..

lemma ignores_install_go: "install_go (env\<lparr>inputs := i\<rparr>) g = install_go env g"
  unfolding install_go_def update_inputs_fields update_inputs_calls ..

lemma ignores_verify_go: "verify_go (env\<lparr>inputs := i\<rparr>) = verify_go env"
  unfolding verify_go_def update_inputs_fields update_inputs_calls ..

lemma ignores_getFileHash: "getFileHash (env\<lparr>inputs := i\<rparr>) = getFileHash env"
  unfolding getFileHash_def update_inputs_calls ..

lemma ignores_restore_attempt: "restore_attempt (env\<lparr>inputs := i\<rparr>) = restore_attempt env"
  unfolding restore_attempt_def update_inputs_calls ..

lemma ignores_cache_step: "cache_step (env\<lparr>inputs := i\<rparr>) wd j v = cache_step env wd j v"
  unfolding cache_step_def update_inputs_fields update_inputs_calls ignores_getFileHash
    ignores_restore_attempt ..

lemma ignores_main_run:
  "main_run (env\<lparr>inputs := (inputs env)(''cache-dependency-path'' := v)\<rparr>) = main_run env"
  unfolding main_run_def main_body_def before_cache_def ignores_read_inputs
    ignores_read_go_version ignores_install_go ignores_verify_go ignores_cache_step ..

section \<open>The claims\<close>

text \<open>
  C1. When the restore phase reaches its cache step it calls the store once, and the
  \<open>cache-hit\<close> state it records is the string \<open>true\<close> if and only if the store
  returned exactly the primary key of that call, and the string \<open>false\<close> otherwise. No
  later element of the key list equals the primary key, so a fallback match, like no match
  and like a rejected call, is recorded as \<open>false\<close>.
\<close>

theorem cacheHit_iff_exact_key:
  assumes "snd (before_cache env) = Inr (workingDirectory, jobName, installedVersion)"
  shows "\<exists>cachePaths cacheKey restoreKeysArray hit.
     restoreCache_calls (fst (main_run env)) = [(cachePaths, cacheKey, restoreKeysArray)] \<and>
     state_writes (fst (main_run env)) =
       [(''cache-key'', cacheKey), (''cache-paths'', js_join cachePaths), (''cache-hit'', hit)] \<and>
     (hit = ''true'' \<longleftrightarrow>
        restoreCache env cachePaths cacheKey restoreKeysArray = Inr (Some cacheKey)) \<and>
     (hit = ''false'' \<longleftrightarrow>
        restoreCache env cachePaths cacheKey restoreKeysArray \<noteq> Inr (Some cacheKey)) \<and>
     (\<forall>k \<in> set (tl restoreKeysArray).
        k \<noteq> cacheKey \<and>
        (restoreCache env cachePaths cacheKey restoreKeysArray = Inr (Some k) \<longrightarrow> hit = ''false'')) \<and>
     (restoreCache env cachePaths cacheKey restoreKeysArray = Inr None \<longrightarrow> hit = ''false'')"
proof -
  obtain h where h: "home_dir env = Some h"
    using before_cache_trace(5) [OF assms] by blast
  obtain g where g: "snd (getFileHash env (path_join env [workingDirectory, ''go.sum''])) = Inr g"
    using getFileHash_total by blast
  define cacheKey where
    "cacheKey = make_cacheKey (env_or (process_env env ''RUNNER_OS'') ''Linux'') installedVersion
       jobName g"
  define cachePaths where
    "cachePaths = [path_join env [h, ''.cache'', ''go-build''],
                   path_join env [h, ''go'', ''pkg'', ''mod'']]"
  define keys where
    "keys = filter_Boolean (js_split
       (buildRestoreKeys (env_or (process_env env ''RUNNER_OS'') ''Linux'') installedVersion
          jobName g))"
  define hit where
    "hit = (if restoreCache env cachePaths cacheKey keys = Inr (Some cacheKey)
            then ''true'' else ''false'')"
  note c = cache_step_outcome [OF h g cacheKey_def cachePaths_def keys_def refl]
  note b = before_cache_trace [OF assms]
  have calls: "restoreCache_calls (fst (main_run env)) = [(cachePaths, cacheKey, keys)]"
    using c(2) b(3) by (simp add: main_run_reaching [OF assms] trace_append)
  have writes: "state_writes (fst (main_run env)) =
      [(''cache-key'', cacheKey), (''cache-paths'', js_join cachePaths), (''cache-hit'', hit)]"
    using c(3) b(1)
    by (simp add: main_run_reaching [OF assms] trace_append bool_toString_def hit_def)
  have differ: "k \<noteq> cacheKey" if "k \<in> set (tl keys)" for k
    using that unfolding keys_def cacheKey_def by (rule fallback_keys_differ)
  have t: "hit = ''true'' \<longleftrightarrow> restoreCache env cachePaths cacheKey keys = Inr (Some cacheKey)"
    and f: "hit = ''false'' \<longleftrightarrow> restoreCache env cachePaths cacheKey keys \<noteq> Inr (Some cacheKey)"
    by (simp_all add: hit_def)
  have fb: "restoreCache env cachePaths cacheKey keys = Inr (Some k) \<longrightarrow> hit = ''false''"
    if "k \<in> set (tl keys)" for k
    using differ [OF that] by (simp add: hit_def)
  have none: "restoreCache env cachePaths cacheKey keys = Inr None \<longrightarrow> hit = ''false''"
    by (simp add: hit_def)
  show ?thesis
    using calls writes t f differ fb none by blast
qed

theorem cacheHit_iff_exact_key_witness:
  "snd (before_cache exact_hit_env) = Inr (''.'', ''build'', ''1.22.0'') \<and>
   snd (before_cache fallback_hit_env) = Inr (''.'', ''build'', ''1.22.0'') \<and>
   restoreCache exact_hit_env
     [''/home/runner/.cache/go-build'', ''/home/runner/go/pkg/mod'']
     ''golang-Linux-1.22.0-build-missing''
     [''golang-Linux-1.22.0-build-missing'', ''golang-Linux-1.22.0-build'',
      ''golang-Linux-1.22.0'', ''golang-Linux''] =
     Inr (Some ''golang-Linux-1.22.0-build-missing'') \<and>
   state_writes (fst (main_run exact_hit_env)) =
     [(''cache-key'', ''golang-Linux-1.22.0-build-missing''),
      (''cache-paths'', js_join [''/home/runner/.cache/go-build'', ''/home/runner/go/pkg/mod'']),
      (''cache-hit'', ''true'')] \<and>
   restoreCache fallback_hit_env
     [''/home/runner/.cache/go-build'', ''/home/runner/go/pkg/mod'']
     ''golang-Linux-1.22.0-build-missing''
     [''golang-Linux-1.22.0-build-missing'', ''golang-Linux-1.22.0-build'',
      ''golang-Linux-1.22.0'', ''golang-Linux''] =
     Inr (Some ''golang-Linux'') \<and>
   ''golang-Linux'' \<in> set (tl [''golang-Linux-1.22.0-build-missing'', ''golang-Linux-1.22.0-build'',
      ''golang-Linux-1.22.0'', ''golang-Linux'']) \<and>
   state_writes (fst (main_run fallback_hit_env)) =
     [(''cache-key'', ''golang-Linux-1.22.0-build-missing''),
      (''cache-paths'', js_join [''/home/runner/.cache/go-build'', ''/home/runner/go/pkg/mod'']),
      (''cache-hit'', ''false'')]"
proof -
  let ?cp = "[''/home/runner/.cache/go-build'', ''/home/runner/go/pkg/mod'']"
  let ?ck = "''golang-Linux-1.22.0-build-missing''"
  let ?ks = "[''golang-Linux-1.22.0-build-missing'', ''golang-Linux-1.22.0-build'',
              ''golang-Linux-1.22.0'', ''golang-Linux'']"
  have h1: "snd (before_cache exact_hit_env) = Inr (''.'', ''build'', ''1.22.0'')"
    by (simp add: exact_hit_env_def runner_env_def main_defs comp_defs call_defs utf8_go_mod)
  have h2: "snd (before_cache fallback_hit_env) = Inr (''.'', ''build'', ''1.22.0'')"
    by (simp add: fallback_hit_env_def runner_env_def main_defs comp_defs call_defs utf8_go_mod)
  have c1: "restoreCache_calls (fst (main_run exact_hit_env)) = [(?cp, ?ck, ?ks)]"
    by (simp add: exact_hit_env_def runner_env_def main_defs comp_defs call_defs utf8_go_mod)
  have c2: "restoreCache_calls (fst (main_run fallback_hit_env)) = [(?cp, ?ck, ?ks)]"
    by (simp add: fallback_hit_env_def runner_env_def main_defs comp_defs call_defs utf8_go_mod)
  have r1: "restoreCache exact_hit_env ?cp ?ck ?ks = Inr (Some ?ck)"
    by (simp add: exact_hit_env_def)
  have r2: "restoreCache fallback_hit_env ?cp ?ck ?ks = Inr (Some ''golang-Linux'')"
    by (simp add: fallback_hit_env_def)
  have m: "''golang-Linux'' \<in> set (tl ?ks)"
    by simp
  from cacheHit_iff_exact_key [OF h1] obtain cp ck ks hit where
    a: "restoreCache_calls (fst (main_run exact_hit_env)) = [(cp, ck, ks)]"
    and w: "state_writes (fst (main_run exact_hit_env)) =
       [(''cache-key'', ck), (''cache-paths'', js_join cp), (''cache-hit'', hit)]"
    and t: "hit = ''true'' \<longleftrightarrow> restoreCache exact_hit_env cp ck ks = Inr (Some ck)"
    by blast
  from a c1 have e: "cp = ?cp" "ck = ?ck" "ks = ?ks" by auto
  from t r1 have "hit = ''true''" unfolding e by blast
  with w have w1: "state_writes (fst (main_run exact_hit_env)) =
       [(''cache-key'', ?ck), (''cache-paths'', js_join ?cp), (''cache-hit'', ''true'')]"
    unfolding e by simp
  from cacheHit_iff_exact_key [OF h2] obtain cp' ck' ks' hit' where
    a': "restoreCache_calls (fst (main_run fallback_hit_env)) = [(cp', ck', ks')]"
    and w': "state_writes (fst (main_run fallback_hit_env)) =
       [(''cache-key'', ck'), (''cache-paths'', js_join cp'), (''cache-hit'', hit')]"
    and fb: "\<forall>k \<in> set (tl ks'). k \<noteq> ck' \<and>
       (restoreCache fallback_hit_env cp' ck' ks' = Inr (Some k) \<longrightarrow> hit' = ''false'')"
    by blast
  from a' c2 have e': "cp' = ?cp" "ck' = ?ck" "ks' = ?ks" by auto
  from fb m r2 have "hit' = ''false''" unfolding e' by blast
  with w' have w2: "state_writes (fst (main_run fallback_hit_env)) =
       [(''cache-key'', ?ck), (''cache-paths'', js_join ?cp), (''cache-hit'', ''false'')]"
    unfolding e' by simp
  show ?thesis
    using h1 h2 r1 w1 r2 m w2 by blast
qed

text \<open>
  C2. For the runner \<open>Linux\<close>, the version \<open>1.22.0\<close>, the job \<open>build\<close> and the hash
  \<open>a1b2c3d4\<close>, the primary key is \<open>golang-Linux-1.22.0-build-a1b2c3d4\<close> and the key
  array handed to the store is that key followed by its three truncations, in this order.
\<close>

theorem derived_keys_example:
  "make_cacheKey ''Linux'' ''1.22.0'' ''build'' ''a1b2c3d4'' = ''golang-Linux-1.22.0-build-a1b2c3d4'' \<and>
   filter_Boolean (js_split (buildRestoreKeys ''Linux'' ''1.22.0'' ''build'' ''a1b2c3d4'')) =
     [''golang-Linux-1.22.0-build-a1b2c3d4'', ''golang-Linux-1.22.0-build'',
      ''golang-Linux-1.22.0'', ''golang-Linux''] \<and>
   filter_Boolean (js_split (buildRestoreKeys ''Linux'' ''1.22.0'' ''build'' ''a1b2c3d4'')) ! 0 =
     make_cacheKey ''Linux'' ''1.22.0'' ''build'' ''a1b2c3d4''"
  by (simp add: make_cacheKey_def buildRestoreKeys_def filter_Boolean_def LF_def)

text \<open>
  C3. On the primary branch, with \<open>cache-hit\<close> persisted as \<open>false\<close> and with non-empty
  \<open>cache-key\<close> and \<open>cache-paths\<close>, the save phase calls the store's save exactly once,
  with the persisted key and with the persisted path string split at the line feeds; when
  that string is the join of a list of non-empty directories free of line feeds, the call
  receives that list.
\<close>

theorem save_called_once_with_persisted_state:
  assumes "context_ref env = ''refs/heads/master''"
    and "job_state env ''cache-hit'' = Some ''false''"
    and "job_state env ''cache-key'' = Some cacheKey" and "cacheKey \<noteq> []"
    and "job_state env ''cache-paths'' = Some cachePaths" and "cachePaths \<noteq> []"
  shows "saveCache_calls (fst (post_run env)) = [(filter_Boolean (js_split cachePaths), cacheKey)] \<and>
         (\<forall>dirs. cachePaths = js_join dirs \<and> list_all (\<lambda>d. d \<noteq> [] \<and> LF \<notin> set d) dirs \<longrightarrow>
            saveCache_calls (fst (post_run env)) = [(dirs, cacheKey)])"
proof -
  have once: "saveCache_calls (fst (post_run env)) =
      [(filter_Boolean (js_split cachePaths), cacheKey)]"
    using assms by (simp add: post_defs comp_defs split: option.splits)
  have again: "filter_Boolean (js_split cachePaths) = dirs"
    if "cachePaths = js_join dirs" and "list_all (\<lambda>d. d \<noteq> [] \<and> LF \<notin> set d) dirs" for dirs
  proof -
    from that assms(6) have "dirs \<noteq> []" by auto
    moreover from that(2) have "list_all (\<lambda>d. LF \<notin> set d) dirs" "list_all (\<lambda>d. d \<noteq> []) dirs"
      by (simp_all add: list_all_iff)
    ultimately show ?thesis
      using that(1) by (simp add: js_split_join filter_Boolean_id)
  qed
  show ?thesis
    using once again by auto
qed

theorem save_called_once_with_persisted_state_witness:
  "context_ref (post_example ''refs/heads/master'' miss_state) = ''refs/heads/master'' \<and>
   job_state (post_example ''refs/heads/master'' miss_state) ''cache-hit'' = Some ''false'' \<and>
   job_state (post_example ''refs/heads/master'' miss_state) ''cache-key'' =
     Some ''golang-Linux-1.22.0-build-missing'' \<and>
   job_state (post_example ''refs/heads/master'' miss_state) ''cache-paths'' =
     Some (js_join [''/home/runner/.cache/go-build'', ''/home/runner/go/pkg/mod'']) \<and>
   list_all (\<lambda>d. d \<noteq> [] \<and> LF \<notin> set d)
     [''/home/runner/.cache/go-build'', ''/home/runner/go/pkg/mod''] \<and>
   saveCache_calls (fst (post_run (post_example ''refs/heads/master'' miss_state))) =
     [([''/home/runner/.cache/go-build'', ''/home/runner/go/pkg/mod''],
       ''golang-Linux-1.22.0-build-missing'')]"
proof -
  let ?env = "post_example ''refs/heads/master'' miss_state"
  let ?dirs = "[''/home/runner/.cache/go-build'', ''/home/runner/go/pkg/mod'']"
  have h1: "context_ref ?env = ''refs/heads/master''"
    and h2: "job_state ?env ''cache-hit'' = Some ''false''"
    and h3: "job_state ?env ''cache-key'' = Some ''golang-Linux-1.22.0-build-missing''"
    and h4: "''golang-Linux-1.22.0-build-missing'' \<noteq> []"
    and h5: "job_state ?env ''cache-paths'' = Some (js_join ?dirs)"
    and h6: "js_join ?dirs \<noteq> []"
    and h7: "list_all (\<lambda>d. d \<noteq> [] \<and> LF \<notin> set d) ?dirs"
    by (simp_all add: post_example_def miss_state_def LF_def)
  from save_called_once_with_persisted_state [OF h1 h2 h3 h4 h5 h6] h7
  have "saveCache_calls (fst (post_run ?env)) = [(?dirs, ''golang-Linux-1.22.0-build-missing'')]"
    by blast
  with h1 h2 h3 h5 h7 show ?thesis by blast
qed

text \<open>
  C4. When the ref is not \<open>refs/heads/master\<close>, the save phase never calls the store's
  save and does not read the persisted state, whatever that state holds.
\<close>

theorem no_save_off_primary_branch:
  assumes "context_ref env \<noteq> ''refs/heads/master''"
  shows "saveCache_calls (fst (post_run env)) = [] \<and> state_reads (fst (post_run env)) = []"
  using assms by (simp add: post_defs comp_defs)

theorem no_save_off_primary_branch_witness:
  "context_ref (post_example ''refs/pull/7/merge'' miss_state) \<noteq> ''refs/heads/master'' \<and>
   saveCache_calls (fst (post_run (post_example ''refs/pull/7/merge'' miss_state))) = [] \<and>
   state_reads (fst (post_run (post_example ''refs/pull/7/merge'' miss_state))) = []"
proof -
  have h: "context_ref (post_example ''refs/pull/7/merge'' miss_state) \<noteq> ''refs/heads/master''"
    by (simp add: post_example_def)
  show ?thesis
    using h no_save_off_primary_branch [OF h] by (rule conjI)
qed

text \<open>
  C5. On the primary branch with \<open>cache-hit\<close> persisted as \<open>true\<close>, the save phase never
  calls the store's save, and it returns before the state-integrity guard: it reads no
  state but \<open>cache-hit\<close> and logs no warning, also when \<open>cache-key\<close> and
  \<open>cache-paths\<close> are absent.
\<close>

theorem hit_guard_before_state_guard:
  assumes "context_ref env = ''refs/heads/master''"
    and "job_state env ''cache-hit'' = Some ''true''"
  shows "saveCache_calls (fst (post_run env)) = [] \<and>
         state_reads (fst (post_run env)) = [''cache-hit''] \<and>
         warnings (fst (post_run env)) = [] \<and>
         snd (post_run env) = Inr ()"
  using assms by (simp add: post_defs comp_defs)

theorem hit_guard_before_state_guard_witness:
  "context_ref (post_example ''refs/heads/master'' hit_state) = ''refs/heads/master'' \<and>
   job_state (post_example ''refs/heads/master'' hit_state) ''cache-hit'' = Some ''true'' \<and>
   job_state (post_example ''refs/heads/master'' hit_state) ''cache-key'' = None \<and>
   job_state (post_example ''refs/heads/master'' hit_state) ''cache-paths'' = None \<and>
   saveCache_calls (fst (post_run (post_example ''refs/heads/master'' hit_state))) = [] \<and>
   state_reads (fst (post_run (post_example ''refs/heads/master'' hit_state))) = [''cache-hit''] \<and>
   warnings (fst (post_run (post_example ''refs/heads/master'' hit_state))) = [] \<and>
   snd (post_run (post_example ''refs/heads/master'' hit_state)) = Inr ()"
proof -
  let ?env = "post_example ''refs/heads/master'' hit_state"
  have h1: "context_ref ?env = ''refs/heads/master''"
    and h2: "job_state ?env ''cache-hit'' = Some ''true''"
    and h3: "job_state ?env ''cache-key'' = None"
    and h4: "job_state ?env ''cache-paths'' = None"
    by (simp_all add: post_example_def hit_state_def)
  show ?thesis
    using h1 h2 h3 h4 hit_guard_before_state_guard [OF h1 h2] by blast
qed

text \<open>
  C8. When the content file cannot be read, for whatever error the read throws,
  \<^verbatim>\<open>getFileHash\<close> logs a warning and returns \<open>missing\<close>; it does not throw.
\<close>

theorem unreadable_file_gives_missing:
  assumes "fs_read env filePath = Inl e"
  shows "getFileHash env filePath =
           ([ReadFile filePath,
             Warning (''Could not read '' @ filePath @ '': '' @ message e)], Inr ''missing'')"
  using assms by (simp add: getFileHash_def readFileSync_def comp_defs)

theorem unreadable_file_gives_missing_witness:
  "fs_read runner_env ''go.sum'' =
     Inl (Error ''ENOENT: no such file or directory, open go.sum'') \<and>
   getFileHash runner_env ''go.sum'' =
     ([ReadFile ''go.sum'',
       Warning ''Could not read go.sum: ENOENT: no such file or directory, open go.sum''],
      Inr ''missing'')"
proof -
  have h: "fs_read runner_env ''go.sum'' =
      Inl (Error ''ENOENT: no such file or directory, open go.sum'')"
    by (simp add: runner_env_def)
  show ?thesis
    using h unreadable_file_gives_missing [OF h] by simp
qed

text \<open>
  C9. A rejection of the store's restore is caught in the restore phase: the attempt logs
  a warning and leaves no restored key and no hit, the run that reached the cache step
  ends normally without \<^verbatim>\<open>setFailed\<close>, and \<open>cache-hit\<close> is recorded as \<open>false\<close>.
  A rejection of the store's save is caught in the save phase, which ends normally with
  one warning; the save phase never throws and never fails the job.
\<close>

theorem store_errors_never_fail_the_job:
  assumes "snd (before_cache env) = Inr (workingDirectory, jobName, installedVersion)"
  shows "snd (main_run env) = Inr () \<and> failures (fst (main_run env)) = [] \<and>
     (\<forall>cachePaths cacheKey keys e.
        restoreCache env cachePaths cacheKey keys = Inl e \<longrightarrow>
        restore_attempt env cachePaths cacheKey keys =
          ([RestoreCache cachePaths cacheKey keys,
            Warning (''Cache restore failed: '' @ message e)], Inr (None, False))) \<and>
     (\<forall>cachePaths cacheKey keys e.
        restoreCache_calls (fst (main_run env)) = [(cachePaths, cacheKey, keys)] \<and>
        restoreCache env cachePaths cacheKey keys = Inl e \<longrightarrow>
        (''cache-hit'', ''false'') \<in> set (state_writes (fst (main_run env)))) \<and>
     snd (post_run penv) = Inr () \<and> failures (fst (post_run penv)) = [] \<and>
     (\<forall>paths key e.
        saveCache_calls (fst (post_run penv)) = [(paths, key)] \<and>
        saveCache penv paths key = Some e \<longrightarrow>
        warnings (fst (post_run penv)) = [''Cache save failed: '' @ message e])"
proof -
  obtain h where h: "home_dir env = Some h"
    using before_cache_trace(5) [OF assms] by blast
  obtain g where g: "snd (getFileHash env (path_join env [workingDirectory, ''go.sum''])) = Inr g"
    using getFileHash_total by blast
  note c = cache_step_outcome [OF h g refl refl refl refl, of jobName installedVersion]
  note b = before_cache_trace [OF assms]
  note m = main_run_reaching [OF assms]
  have 1: "snd (main_run env) = Inr ()"
    by (simp add: m)
  have 2: "failures (fst (main_run env)) = []"
    using c(5) b(2) by (simp add: m trace_append)
  have 3: "restore_attempt env cachePaths cacheKey keys =
      ([RestoreCache cachePaths cacheKey keys,
        Warning (''Cache restore failed: '' @ message e)], Inr (None, False))"
    if "restoreCache env cachePaths cacheKey keys = Inl e" for cachePaths cacheKey keys e
    using that by (simp add: restore_attempt_def restoreCache_call_def comp_defs)
  have 4: "(''cache-hit'', ''false'') \<in> set (state_writes (fst (main_run env)))"
    if "restoreCache_calls (fst (main_run env)) = [(cachePaths, cacheKey, keys)]"
      and "restoreCache env cachePaths cacheKey keys = Inl e" for cachePaths cacheKey keys e
    using that c(2,3) b(1,3) by (simp add: m trace_append bool_toString_def)
  have 5: "snd (post_run penv) = Inr ()"
    by (simp add: post_defs comp_defs split: option.splits)
  have 6: "failures (fst (post_run penv)) = []"
    by (simp add: post_defs comp_defs split: option.splits)
  have 7: "warnings (fst (post_run penv)) = [''Cache save failed: '' @ message e]"
    if "saveCache_calls (fst (post_run penv)) = [(paths, key)]"
      and "saveCache penv paths key = Some e" for paths key e
    using that by (auto simp: post_defs comp_defs split: option.splits if_splits)
  show ?thesis
    using 1 2 3 4 5 6 7 by blast
qed

theorem store_errors_never_fail_the_job_witness:
  "snd (before_cache failing_restore_env) = Inr (''.'', ''build'', ''1.22.0'') \<and>
   restoreCache_calls (fst (main_run failing_restore_env)) =
     [([''/home/runner/.cache/go-build'', ''/home/runner/go/pkg/mod''],
       ''golang-Linux-1.22.0-build-missing'',
       [''golang-Linux-1.22.0-build-missing'', ''golang-Linux-1.22.0-build'',
        ''golang-Linux-1.22.0'', ''golang-Linux''])] \<and>
   restoreCache failing_restore_env
     [''/home/runner/.cache/go-build'', ''/home/runner/go/pkg/mod'']
     ''golang-Linux-1.22.0-build-missing''
     [''golang-Linux-1.22.0-build-missing'', ''golang-Linux-1.22.0-build'',
      ''golang-Linux-1.22.0'', ''golang-Linux''] =
     Inl (Error ''Cache service responded with 503'') \<and>
   saveCache_calls (fst (post_run failing_save_env)) =
     [([''/home/runner/.cache/go-build'', ''/home/runner/go/pkg/mod''],
       ''golang-Linux-1.22.0-build-missing'')] \<and>
   saveCache failing_save_env [''/home/runner/.cache/go-build'', ''/home/runner/go/pkg/mod'']
     ''golang-Linux-1.22.0-build-missing'' = Some (Error ''Cache already exists'') \<and>
   snd (main_run failing_restore_env) = Inr () \<and>
   failures (fst (main_run failing_restore_env)) = [] \<and>
   (''cache-hit'', ''false'') \<in> set (state_writes (fst (main_run failing_restore_env))) \<and>
   snd (post_run failing_save_env) = Inr () \<and>
   failures (fst (post_run failing_save_env)) = [] \<and>
   warnings (fst (post_run failing_save_env)) = [''Cache save failed: Cache already exists'']"
proof -
  let ?cp = "[''/home/runner/.cache/go-build'', ''/home/runner/go/pkg/mod'']"
  let ?ck = "''golang-Linux-1.22.0-build-missing''"
  let ?ks = "[''golang-Linux-1.22.0-build-missing'', ''golang-Linux-1.22.0-build'',
              ''golang-Linux-1.22.0'', ''golang-Linux'']"
  have h: "snd (before_cache failing_restore_env) = Inr (''.'', ''build'', ''1.22.0'')"
    by (simp add: failing_restore_env_def runner_env_def main_defs comp_defs call_defs utf8_go_mod)
  have r1: "restoreCache_calls (fst (main_run failing_restore_env)) = [(?cp, ?ck, ?ks)]"
    by (simp add: failing_restore_env_def runner_env_def main_defs comp_defs call_defs utf8_go_mod)
  have r2: "restoreCache failing_restore_env ?cp ?ck ?ks =
      Inl (Error ''Cache service responded with 503'')"
    by (simp add: failing_restore_env_def)
  have s1: "saveCache_calls (fst (post_run failing_save_env)) = [(?cp, ?ck)]"
    by (simp add: failing_save_env_def post_example_def miss_state_def post_defs comp_defs
        filter_Boolean_def LF_def)
  have s2: "saveCache failing_save_env ?cp ?ck = Some (Error ''Cache already exists'')"
    by (simp add: failing_save_env_def)
  note t = store_errors_never_fail_the_job [OF h, of failing_save_env]
  from t r1 r2 have a: "(''cache-hit'', ''false'') \<in> set (state_writes (fst (main_run failing_restore_env)))"
    by blast
  from t s1 s2 have b: "warnings (fst (post_run failing_save_env)) =
      [''Cache save failed: '' @ message (Error ''Cache already exists'')]"
    by blast
  from t have c: "snd (main_run failing_restore_env) = Inr ()"
    "failures (fst (main_run failing_restore_env)) = []"
    "snd (post_run failing_save_env) = Inr ()"
    "failures (fst (post_run failing_save_env)) = []"
    by blast+
  show ?thesis
    using h r1 r2 s1 s2 a b c by simp
qed

text \<open>
  C10. Every run of the restore phase that reaches the cache step writes the state entries
  \<open>cache-key\<close>, \<open>cache-paths\<close> and \<open>cache-hit\<close>, in this order and nothing else;
  \<open>cache-hit\<close> is \<open>true\<close> or \<open>false\<close>, it is \<open>false\<close> when the store's restore
  throws, and the output \<open>cache-hit\<close> carries the same string.
\<close>

theorem state_written_at_cache_step:
  assumes "snd (before_cache env) = Inr (workingDirectory, jobName, installedVersion)"
  shows "\<exists>cachePaths cacheKey restoreKeysArray hit.
     restoreCache_calls (fst (main_run env)) = [(cachePaths, cacheKey, restoreKeysArray)] \<and>
     state_writes (fst (main_run env)) =
       [(''cache-key'', cacheKey), (''cache-paths'', js_join cachePaths), (''cache-hit'', hit)] \<and>
     (hit = ''true'' \<or> hit = ''false'') \<and>
     (\<forall>e. restoreCache env cachePaths cacheKey restoreKeysArray = Inl e \<longrightarrow> hit = ''false'') \<and>
     outputs (fst (main_run env)) = [(''go-version'', installedVersion), (''cache-hit'', hit)]"
proof -
  obtain h where h: "home_dir env = Some h"
    using before_cache_trace(5) [OF assms] by blast
  obtain g where g: "snd (getFileHash env (path_join env [workingDirectory, ''go.sum''])) = Inr g"
    using getFileHash_total by blast
  note c = cache_step_outcome [OF h g refl refl refl refl, of jobName installedVersion]
  note b = before_cache_trace [OF assms]
  show ?thesis
    using c(2,3,4) b(1,3,4)
    by (simp add: main_run_reaching [OF assms] trace_append bool_toString_def)
qed

theorem state_written_at_cache_step_witness:
  "snd (before_cache failing_restore_env) = Inr (''.'', ''build'', ''1.22.0'') \<and>
   (\<exists>cachePaths cacheKey restoreKeysArray hit e.
     restoreCache_calls (fst (main_run failing_restore_env)) =
       [(cachePaths, cacheKey, restoreKeysArray)] \<and>
     state_writes (fst (main_run failing_restore_env)) =
       [(''cache-key'', cacheKey), (''cache-paths'', js_join cachePaths), (''cache-hit'', hit)] \<and>
     restoreCache failing_restore_env cachePaths cacheKey restoreKeysArray = Inl e \<and>
     hit = ''false'' \<and>
     outputs (fst (main_run failing_restore_env)) = [(''go-version'', ''1.22.0''), (''cache-hit'', hit)])"
proof -
  have h: "snd (before_cache failing_restore_env) = Inr (''.'', ''build'', ''1.22.0'')"
    by (simp add: failing_restore_env_def runner_env_def main_defs comp_defs call_defs utf8_go_mod)
  from state_written_at_cache_step [OF h] obtain cp ck ks hit where
    a: "restoreCache_calls (fst (main_run failing_restore_env)) = [(cp, ck, ks)]"
    and b: "state_writes (fst (main_run failing_restore_env)) =
       [(''cache-key'', ck), (''cache-paths'', js_join cp), (''cache-hit'', hit)]"
    and c: "\<forall>e. restoreCache failing_restore_env cp ck ks = Inl e \<longrightarrow> hit = ''false''"
    and d: "outputs (fst (main_run failing_restore_env)) = [(''go-version'', ''1.22.0''), (''cache-hit'', hit)]"
    by blast
  have e: "restoreCache failing_restore_env cp ck ks = Inl (Error ''Cache service responded with 503'')"
    by (simp add: failing_restore_env_def)
  with c have "hit = ''false''" by blast
  with h a b d e show ?thesis by blast
qed

text \<open>
  C6, as the claim states it, fails: the file is read as UTF-8 text and the hash is taken
  of that text. For the readable file whose only byte is 0xFF the text is U+FFFD, and the
  content hash is \<open>83d544cc\<close>, while the SHA-256 digest of the raw byte starts with
  \<open>a8100ae6\<close>.
\<close>

theorem contentHash_raw_bytes_counterexample:
  "fs_read invalid_utf8_env ''go.sum'' = Inr [CHR 0xFF] \<and>
   snd (getFileHash invalid_utf8_env ''go.sum'') = Inr ''83d544cc'' \<and>
   take 8 (sha256_hex [CHR 0xFF]) = ''a8100ae6'' \<and>
   snd (getFileHash invalid_utf8_env ''go.sum'') \<noteq> Inr (take 8 (sha256_hex [CHR 0xFF]))"
proof -
  have r: "fs_read invalid_utf8_env ''go.sum'' = Inr [CHR 0xFF]"
    by (simp add: invalid_utf8_env_def)
  have h: "snd (getFileHash invalid_utf8_env ''go.sum'') = Inr ''83d544cc''"
    by (simp add: getFileHash_outcome r utf8_FF sha256_hex_FFFD)
  show ?thesis
    by (simp add: r h sha256_hex_FF)
qed

text \<open>
  C6, amended. For every readable content file, the content hash is the first eight
  hexadecimal digits of the SHA-256 digest of the file's content decoded as UTF-8 (each
  ill-formed sequence read as U+FFFD) and encoded again; for a file of well-formed UTF-8
  this is the digest of its raw bytes.
\<close>

theorem contentHash_of_decoded_content:
  assumes "fs_read env filePath = Inr bytes"
  shows "getFileHash env filePath =
           ([ReadFile filePath], Inr (take 8 (sha256_hex (utf8_encode (utf8_decode bytes))))) \<and>
         (well_formed_utf8 bytes \<longrightarrow>
            getFileHash env filePath = ([ReadFile filePath], Inr (take 8 (sha256_hex bytes))))"
  using assms by (simp add: getFileHash_outcome well_formed_roundtrip)

theorem contentHash_of_decoded_content_witness:
  "fs_read text_sum_env ''go.sum'' = Inr [CHR ''v'', CHR ''1'', CHR '' '', CHR 0xC3, CHR 0xA9, LF] \<and>
   well_formed_utf8 [CHR ''v'', CHR ''1'', CHR '' '', CHR 0xC3, CHR 0xA9, LF] \<and>
   getFileHash text_sum_env ''go.sum'' =
     ([ReadFile ''go.sum''],
      Inr (take 8 (sha256_hex [CHR ''v'', CHR ''1'', CHR '' '', CHR 0xC3, CHR 0xA9, LF])))"
proof -
  have r: "fs_read text_sum_env ''go.sum'' =
      Inr [CHR ''v'', CHR ''1'', CHR '' '', CHR 0xC3, CHR 0xA9, LF]"
    by (simp add: text_sum_env_def)
  have w: "well_formed_utf8 [CHR ''v'', CHR ''1'', CHR '' '', CHR 0xC3, CHR 0xA9, LF]"
    by (simp add: well_formed_utf8_def LF_def)
  from contentHash_of_decoded_content [OF r] w
  have "getFileHash text_sum_env ''go.sum'' =
     ([ReadFile ''go.sum''],
      Inr (take 8 (sha256_hex [CHR ''v'', CHR ''1'', CHR '' '', CHR 0xC3, CHR 0xA9, LF])))"
    by blast
  with r w show ?thesis by blast
qed

text \<open>
  C7. The restore phase never reads the option \<^verbatim>\<open>cache-dependency-path\<close>: changing its
  value changes nothing of a run. With the option set to \<open>deps/go.sum\<close>, a readable file,
  and no \<^verbatim>\<open>go.sum\<close> in the working directory, the run reads the three other inputs
  only, tries to read \<open>go.sum\<close>, and derives the key from the hash \<open>missing\<close>.
\<close>

theorem cache_dependency_path_ignored:
  "main_run (env\<lparr>inputs := (inputs env)(''cache-dependency-path'' := v)\<rparr>) = main_run env \<and>
   inputs dependency_path_env ''cache-dependency-path'' = ''deps/go.sum'' \<and>
   fs_read dependency_path_env ''deps/go.sum'' = Inr ''example.com/m v1.0.0 h1:abc='' \<and>
   input_reads (fst (main_run dependency_path_env)) =
     [''go-version-file'', ''working-directory'', ''job-name''] \<and>
   file_reads (fst (main_run dependency_path_env)) = [''/work/go.mod'', ''go.sum''] \<and>
   state_writes (fst (main_run dependency_path_env)) =
     [(''cache-key'', ''golang-Linux-1.22.0-build-missing''),
      (''cache-paths'', js_join [''/home/runner/.cache/go-build'', ''/home/runner/go/pkg/mod'']),
      (''cache-hit'', ''false'')]"
proof -
  have "main_run dependency_path_env =
     ([GetInput ''go-version-file'', GetInput ''working-directory'', GetInput ''job-name'',
       ExistsSync ''.'', Info ''Setting up Go with version file: go.mod'',
       Info ''Working directory: .'', Info ''Job name: build'', Info ''Setting up Go...'',
       ExistsSync ''/work/go.mod'', ReadFile ''/work/go.mod'',
       Info ''Found Go version 1.22.0 in go.mod'',
       ExistsSync ''/home/runner/go-install/1.22.0/bin/go'',
       AddPath ''/home/runner/go-install/1.22.0/bin'',
       ExportVariable ''GOROOT'' ''/home/runner/go-install/1.22.0'',
       Exec ''go'' [''version''], Info ''Go version: 1.22.0'',
       SetOutput ''go-version'' ''1.22.0'', ReadFile ''go.sum'',
       Warning ''Could not read go.sum: ENOENT: no such file or directory, open go.sum'',
       Info ''Cache key: golang-Linux-1.22.0-build-missing'',
       Info ''Cache paths: ~/.cache/go-build, ~/go/pkg/mod'',
       Info ''Restoring Go cache...'',
       RestoreCache [''/home/runner/.cache/go-build'', ''/home/runner/go/pkg/mod'']
         ''golang-Linux-1.22.0-build-missing''
         [''golang-Linux-1.22.0-build-missing'', ''golang-Linux-1.22.0-build'',
          ''golang-Linux-1.22.0'', ''golang-Linux''],
       Info ''Cache restore result: miss'',
       SaveState ''cache-key'' ''golang-Linux-1.22.0-build-missing'',
       SaveState ''cache-paths''
         (js_join [''/home/runner/.cache/go-build'', ''/home/runner/go/pkg/mod'']),
       SaveState ''cache-hit'' ''false'', SetOutput ''cache-hit'' ''false'',
       Info ''Cache operation completed. Hit: false''], Inr ())"
    by (simp add: dependency_path_env_def runner_env_def main_defs comp_defs call_defs
        utf8_go_mod)
  then show ?thesis
    by (simp add: ignores_main_run dependency_path_env_def)
qed

end
